theory Spec2Isabelle
  imports Main
begin

section \<open>Failed assertions\<close>

text \<open>
  Every precondition of the sources is written \<^verbatim>\<open>TA_ASSERT(cond)\<close>. The documentation
  comments beside the assertions say what a failed one does
  (\<^verbatim>\<open>\throw TiledArray::Exception When ...\<close>): the call is left at that point and nothing
  after the assertion runs. A call that can fail returns \<open>error + 'a\<close>, with \<open>Inl\<close> the
  failure.
\<close>

datatype error = Exception

text \<open>
  Modelled from the spec: the macro \<^verbatim>\<open>TA_ASSERT\<close> is declared in \<^verbatim>\<open>error.h\<close>, which is not
  among the sources. The spec calls a failed check a fatal precondition violation that is
  reported by aborting the call; the sources' own comments name the exception.
\<close>

definition TA_ASSERT :: "bool \<Rightarrow> (error + 'a) \<Rightarrow> error + 'a" where
  "TA_ASSERT cond rest = (if cond then rest else Inl Exception)"

section \<open>TensorImpl (tensor\_impl.h)\<close>

text \<open>
  \<^verbatim>\<open>TensorImpl\<close> holds the meta data of a tensor: the tiled range, the shape and the
  process map. The three classes behind these members are collaborators that are not among
  the sources, so the record holds exactly the member functions that \<^verbatim>\<open>TensorImpl\<close>
  calls on them:
  \<^item> \<^verbatim>\<open>trange_.tiles().includes(i)\<close> and \<^verbatim>\<open>trange_.tiles().ordinal(i)\<close>, for an index type
    \<open>'i\<close> (the methods are templates over the index type);
  \<^item> \<^verbatim>\<open>shape_.is_zero(ord)\<close>;
  \<^item> \<^verbatim>\<open>pmap_->owner(ord)\<close> and \<^verbatim>\<open>pmap_->is_local(ord)\<close>.
  \<^verbatim>\<open>ProcessID\<close> is a signed integer.
\<close>

type_synonym ProcessID = int

record 'i TensorImpl =
  tiles_includes :: "'i \<Rightarrow> bool"
  tiles_ordinal :: "'i \<Rightarrow> nat"
  shape_is_zero :: "nat \<Rightarrow> bool"
  pmap_owner :: "nat \<Rightarrow> ProcessID"
  pmap_is_local :: "nat \<Rightarrow> bool"

text \<open>
  The queries are \<^verbatim>\<open>const\<close> member functions. Each one is modelled with explicit state
  passing: it returns its answer together with the object as the call leaves it.
  \<^verbatim>\<open>
  ProcessID owner(const Index& i) const {
    TA_ASSERT(trange_.tiles().includes(i));
    return pmap_->owner(trange_.tiles().ordinal(i));
  }
  bool is_local(const Index& i) const {
    TA_ASSERT(trange_.tiles().includes(i));
    return pmap_->is_local(trange_.tiles().ordinal(i));
  }
  bool is_zero(const Index& i) const {
    TA_ASSERT(trange_.tiles().includes(i));
    return shape_.is_zero(trange_.tiles().ordinal(i));
  }
  \<close>
\<close>

definition owner :: "'i TensorImpl \<Rightarrow> 'i \<Rightarrow> (error + ProcessID) \<times> 'i TensorImpl" where
  "owner this i =
     (TA_ASSERT (tiles_includes this i) (Inr (pmap_owner this (tiles_ordinal this i))), this)"

definition is_local :: "'i TensorImpl \<Rightarrow> 'i \<Rightarrow> (error + bool) \<times> 'i TensorImpl" where
  "is_local this i =
     (TA_ASSERT (tiles_includes this i) (Inr (pmap_is_local this (tiles_ordinal this i))), this)"

definition is_zero :: "'i TensorImpl \<Rightarrow> 'i \<Rightarrow> (error + bool) \<times> 'i TensorImpl" where
  "is_zero this i =
     (TA_ASSERT (tiles_includes this i) (Inr (shape_is_zero this (tiles_ordinal this i))), this)"

text \<open>
  A tensor of four tiles on a world of two processes, seen from process 0: tiles 0 and 1
  are local, tile 2 is zero.
\<close>

definition example_impl :: "nat TensorImpl" where
  "example_impl =
     \<lparr> tiles_includes = (\<lambda>i. i < 4), tiles_ordinal = (\<lambda>i. i),
       shape_is_zero = (\<lambda>ord. ord = 2),
       pmap_owner = (\<lambda>ord. int ord div 2), pmap_is_local = (\<lambda>ord. ord < 2) \<rparr>"

section \<open>Distributed arrays and the task queue (collaborators of foreach.h)\<close>

text \<open>
  \<^verbatim>\<open>foreach.h\<close> only forward-declares \<^verbatim>\<open>DistArray\<close>; the class, like the task queue of
  the world, is not among the sources. The record below holds what \<^verbatim>\<open>foreach\<close> reads and
  writes through the array's interface, as the spec's data model lists it (a tiled index
  range, a shape, a tile-to-rank map and per-tile value slots addressable by tile index):
  \<^item> \<open>trange\<close>: the tiled range, compared with \<open>=\<close> only;
  \<^item> \<open>shape\<close>: the verdict of \<^verbatim>\<open>is_zero(index)\<close> for a tile ordinal;
  \<^item> \<open>pmap\<close>: the tile ordinals that the iteration \<^verbatim>\<open>for(auto index: *(arg.pmap()))\<close>
    yields, in order: the locally owned tiles;
  \<^item> \<open>tiles\<close>: the tile slots.
  A \<^verbatim>\<open>Future<T>\<close> is a value that may not have been set: \<open>None\<close> is a future that is
  never set, \<open>Some t\<close> one that resolves to \<open>t\<close>.
\<close>

type_synonym 'a Future = "'a option"

record ('tr, 't) DistArray =
  trange :: 'tr
  shape :: "nat \<Rightarrow> bool"
  pmap :: "nat list"
  tiles :: "nat \<Rightarrow> 't Future"

text \<open>
  Modelled from the spec: \<^verbatim>\<open>DistArray::is_zero\<close>, \<^verbatim>\<open>DistArray::find\<close> and
  \<^verbatim>\<open>DistArray::set\<close> are not among the sources. They read the shape, read a tile slot and
  write a tile slot.
\<close>

definition DistArray_is_zero :: "('tr, 't) DistArray \<Rightarrow> nat \<Rightarrow> bool" where
  "DistArray_is_zero array index = shape array index"

definition DistArray_find :: "('tr, 't) DistArray \<Rightarrow> nat \<Rightarrow> 't Future" where
  "DistArray_find array index = tiles array index"

definition DistArray_set :: "('tr, 't) DistArray \<Rightarrow> nat \<Rightarrow> 't Future \<Rightarrow> ('tr, 't) DistArray" where
  "DistArray_set array index tile = array\<lparr>tiles := (tiles array)(index := tile)\<rparr>"

text \<open>
  What a call does to the world is kept as the list of the operations it issues, in
  program order: \<^verbatim>\<open>world.gop.fence()\<close>, \<^verbatim>\<open>world.taskq.add(task, index, ...)\<close> for a tile
  index, \<^verbatim>\<open>world.await(...)\<close> on a task count, and \<^verbatim>\<open>result.set(index, tile)\<close>.
\<close>

datatype action = Fence | TaskAdd nat | Await int | Set nat

type_synonym World = "action list"


text \<open>
  Modelled from the spec: \<^verbatim>\<open>world.taskq.add(task, futures...)\<close> belongs to the task
  substrate. It returns at once with the future of the task's result; the task runs when
  all its argument futures have resolved, so the result never resolves when one of them
  never does.
\<close>

definition taskq_add :: "('t \<Rightarrow> 't list \<Rightarrow> 'r) \<Rightarrow> 't Future \<Rightarrow> 't Future list \<Rightarrow> 'r Future" where
  "taskq_add task arg_tile arg_tiles =
     (case arg_tile of
        None \<Rightarrow> None
      | Some t \<Rightarrow> (case those arg_tiles of None \<Rightarrow> None | Some ts \<Rightarrow> Some (task t ts)))"

section \<open>foreach.h: the helpers\<close>

text \<open>
  The tile operation \<^verbatim>\<open>op\<close> writes its result through its first parameter. In the model it
  returns that tile. With \<^verbatim>\<open>inplace == false\<close> the helper passes a default-constructed
  \<^verbatim>\<open>Result result;\<close> (the parameter \<open>result\<close> below) and returns it after the call; with
  \<^verbatim>\<open>inplace == true\<close> it passes the argument tile itself and returns it.
  \<^verbatim>\<open>
  Result operator()(Op&&op, const Arg& arg, const Args&... args) {
    Result result;
    op(result, arg, args...);
    return result;
  }
  Arg operator()(Op&&op, Arg& arg, const Args&... args) {
    op(arg, args...);
    return arg;
  }
  \<close>
  The non-void helpers do the same for an operation that also returns a value (the norm
  of the result tile), which the caller stores in \<^verbatim>\<open>op_result\<close>; the model returns the
  pair. The variadic arguments \<^verbatim>\<open>args...\<close> are a list; the sources let every operand array
  have a tile type of its own, the model gives them one type \<open>'t\<close>.
\<close>

definition void_op_helper_false :: "('r \<Rightarrow> 't \<Rightarrow> 't list \<Rightarrow> 'r) \<Rightarrow> 'r \<Rightarrow> 't \<Rightarrow> 't list \<Rightarrow> 'r" where
  "void_op_helper_false op result arg args = op result arg args"

definition void_op_helper_true :: "('t \<Rightarrow> 't list \<Rightarrow> 't) \<Rightarrow> 't \<Rightarrow> 't list \<Rightarrow> 't" where
  "void_op_helper_true op arg args = op arg args"

definition nonvoid_op_helper_false ::
  "('r \<Rightarrow> 't \<Rightarrow> 't list \<Rightarrow> 'r \<times> 'n) \<Rightarrow> 'r \<Rightarrow> 't \<Rightarrow> 't list \<Rightarrow> 'r \<times> 'n" where
  "nonvoid_op_helper_false op result arg args = op result arg args"


text \<open>
  \<^verbatim>\<open>
  compare_trange(array)                      { return true; }
  compare_trange(array1, array2)             { return array1.trange() == array2.trange(); }
  compare_trange(array1, array2, arrays...)  { return (array1.trange() == array2.trange()) &&
                                                      compare_trange(array1, arrays...); }
  \<close>
\<close>

fun compare_trange :: "('tr, 't) DistArray \<Rightarrow> ('tr, 't) DistArray list \<Rightarrow> bool" where
  "compare_trange array1 [] = True"
| "compare_trange array1 [array2] = (trange array1 = trange array2)"
| "compare_trange array1 (array2 # arrays) =
     (trange array1 = trange array2 \<and> compare_trange array1 arrays)"

text \<open>
  \<^verbatim>\<open>
  bool is_zero_intersection(const std::initializer_list<bool>& is_zero_list) {
    return std::any_of(is_zero_list.begin(), is_zero_list.end(), [](const bool val) { return val; });
  }
  bool is_zero_union(const std::initializer_list<bool>& is_zero_list) {
    return std::all_of(is_zero_list.begin(), is_zero_list.end(), [](const bool val) { return val; });
  }
  \<close>
\<close>

definition is_zero_intersection :: "bool list \<Rightarrow> bool" where
  "is_zero_intersection is_zero_list = list_ex (\<lambda>val. val) is_zero_list"

definition is_zero_union :: "bool list \<Rightarrow> bool" where
  "is_zero_union is_zero_list = list_all (\<lambda>val. val) is_zero_list"

text \<open>
  \<^verbatim>\<open>
  return (! array.is_zero(index) ? array.find(index)
                                 : Future<typename A::value_type>(typename A::value_type()));
  \<close>
  The value-initialised tile \<^verbatim>\<open>typename A::value_type()\<close> is the parameter \<open>zero_tile\<close>.
\<close>

definition get_sparse_tile :: "'t \<Rightarrow> nat \<Rightarrow> ('tr, 't) DistArray \<Rightarrow> 't Future" where
  "get_sparse_tile zero_tile index array =
     (if \<not> DistArray_is_zero array index then DistArray_find array index else Some zero_tile)"

section \<open>foreach.h: the dense base implementation\<close>

text \<open>
  \<^verbatim>\<open>
  World& world = arg.world();
  result_array_type result(world, arg.trange(), arg.pmap());
  auto task = [&op](arg_tile, arg_tiles...) { ... return op_caller(op, arg_tile, arg_tiles...); };
  for (auto index: *(arg.pmap())) {
    Future<ResultTile> tile = world.taskq.add(task, arg.find(index), args.find(index)...);
    result.set(index, tile);
  }
  return result;
  \<close>
  The parameter \<open>task\<close> is the task function, that is the helper applied to \<^verbatim>\<open>op\<close>. A new
  dense array has no tile set, and its shape calls no tile zero.
\<close>

fun foreach_dense_loop ::
  "('t \<Rightarrow> 't list \<Rightarrow> 'r) \<Rightarrow> ('tr, 't) DistArray \<Rightarrow> ('tr, 't) DistArray list \<Rightarrow> nat list \<Rightarrow>
   World \<times> ('tr, 'r) DistArray \<Rightarrow> World \<times> ('tr, 'r) DistArray" where
  "foreach_dense_loop task arg args [] (world, result) = (world, result)"
| "foreach_dense_loop task arg args (index # rest) (world, result) =
     (let tile = taskq_add task (DistArray_find arg index) (map (\<lambda>a. DistArray_find a index) args)
      in foreach_dense_loop task arg args rest
           (world @ [TaskAdd index, Set index], DistArray_set result index tile))"

definition foreach_dense ::
  "('t \<Rightarrow> 't list \<Rightarrow> 'r) \<Rightarrow> World \<Rightarrow> ('tr, 't) DistArray \<Rightarrow> ('tr, 't) DistArray list \<Rightarrow>
   World \<times> ('tr, 'r) DistArray" where
  "foreach_dense task world arg args =
     (let result = \<lparr> trange = trange arg, shape = (\<lambda>_. False), pmap = pmap arg,
                     tiles = (\<lambda>_. None) \<rparr>
      in foreach_dense_loop task arg args (pmap arg) (world, result))"

section \<open>foreach.h: the sparse base implementation\<close>

datatype ArraySparcitySet = sparse_union | sparse_intersection

text \<open>
  The task function of the sparse implementation writes the value that the operation
  returns into \<^verbatim>\<open>tile_norms[index]\<close> and increments the atomic counter:
  \<^verbatim>\<open>
  auto task = [&op,&counter,&tile_norms](const size_type index, arg_tile, arg_tiles...) {
    auto result_tile = op_caller(std::forward<Op>(op), tile_norms[index], arg_tile, arg_tiles...);
    ++counter;
    return result_tile;
  };
  \<close>
  The two variables the tasks share are the record \<open>task_state\<close>. The index comes from the
  process map of \<^verbatim>\<open>arg\<close>, and \<^verbatim>\<open>tile_norms\<close> is built on the tile range of \<^verbatim>\<open>arg\<close>, so the
  element access is inside the tensor.
\<close>

record 'n task_state =
  tile_norms :: "nat \<Rightarrow> 'n"
  counter :: int

definition sparse_task ::
  "('t \<Rightarrow> 't list \<Rightarrow> 'r \<times> 'n) \<Rightarrow> nat \<Rightarrow> 't \<Rightarrow> 't list \<Rightarrow> 'n task_state \<Rightarrow> 'r \<times> 'n task_state" where
  "sparse_task op_caller index arg_tile arg_tiles st =
     (case op_caller arg_tile arg_tiles of
        (result_tile, op_result) \<Rightarrow>
          (result_tile,
           st\<lparr>tile_norms := (tile_norms st)(index := op_result), counter := counter st + 1\<rparr>))"

text \<open>
  The local variables of \<^verbatim>\<open>foreach\<close> while it spawns: the world, \<^verbatim>\<open>task_count\<close>, the vector
  \<^verbatim>\<open>tiles\<close> of pairs of an index and the future of the task's result tile, and the tasks
  handed to the task queue, each with its index and its argument futures.
\<close>

record ('t, 'r) spawn_state =
  sp_world :: World
  task_count :: int
  tiles_vector :: "(nat \<times> 'r Future) list"
  taskq :: "(nat \<times> 't Future \<times> 't Future list) list"

text \<open>
  \<^verbatim>\<open>
  case sparse_intersection:
    for(auto index: *(arg.pmap())) {
      if(! is_zero_intersection({arg.is_zero(index), args.is_zero(index)...}))
        continue;
      auto result_tile = world.taskq.add(task, index, arg.find(index), args.find(index)...);
      ++task_count;
      tiles.push_back(datum_type(index, result_tile));
    }
    break;
  case sparse_union:
    for(auto index: *(arg.pmap())) {
      if(! is_zero_union({arg.is_zero(index), args.is_zero(index)...}))
        continue;
      auto result_tile = world.taskq.add(task, index, detail::get_sparse_tile(index, arg),
          detail::get_sparse_tile(index, args)...);
      ++task_count;
      tiles.push_back(datum_type(index, result_tile));
    }
    break;
  default:
    TA_ASSERT(false);
    break;
  \<close>
  The enumeration has the two values above, so the \<^verbatim>\<open>default\<close> branch is not reached and
  has no counterpart in the model. \<open>spawn\<close> is the part the two loops share: the call of
  \<^verbatim>\<open>world.taskq.add\<close>, the increment and the \<^verbatim>\<open>push_back\<close>.
\<close>

definition spawn ::
  "('t \<Rightarrow> 't list \<Rightarrow> 'r \<times> 'n) \<Rightarrow> nat \<Rightarrow> 't Future \<Rightarrow> 't Future list \<Rightarrow>
   ('t, 'r) spawn_state \<Rightarrow> ('t, 'r) spawn_state" where
  "spawn op_caller index arg_tile arg_tiles s =
     (let result_tile = taskq_add (\<lambda>t ts. fst (op_caller t ts)) arg_tile arg_tiles
      in s\<lparr> sp_world := sp_world s @ [TaskAdd index],
            taskq := taskq s @ [(index, arg_tile, arg_tiles)],
            task_count := task_count s + 1,
            tiles_vector := tiles_vector s @ [(index, result_tile)] \<rparr>)"

fun foreach_sparse_intersection_loop ::
  "('t \<Rightarrow> 't list \<Rightarrow> 'r \<times> 'n) \<Rightarrow> ('tr, 't) DistArray \<Rightarrow> ('tr, 't) DistArray list \<Rightarrow> nat list \<Rightarrow>
   ('t, 'r) spawn_state \<Rightarrow> ('t, 'r) spawn_state" where
  "foreach_sparse_intersection_loop op_caller arg args [] s = s"
| "foreach_sparse_intersection_loop op_caller arg args (index # rest) s =
     (if \<not> is_zero_intersection
             (DistArray_is_zero arg index # map (\<lambda>a. DistArray_is_zero a index) args)
      then foreach_sparse_intersection_loop op_caller arg args rest s
      else foreach_sparse_intersection_loop op_caller arg args rest
             (spawn op_caller index (DistArray_find arg index)
                (map (\<lambda>a. DistArray_find a index) args) s))"

fun foreach_sparse_union_loop ::
  "('t \<Rightarrow> 't list \<Rightarrow> 'r \<times> 'n) \<Rightarrow> 't \<Rightarrow> ('tr, 't) DistArray \<Rightarrow> ('tr, 't) DistArray list \<Rightarrow> nat list \<Rightarrow>
   ('t, 'r) spawn_state \<Rightarrow> ('t, 'r) spawn_state" where
  "foreach_sparse_union_loop op_caller zero_tile arg args [] s = s"
| "foreach_sparse_union_loop op_caller zero_tile arg args (index # rest) s =
     (if \<not> is_zero_union
             (DistArray_is_zero arg index # map (\<lambda>a. DistArray_is_zero a index) args)
      then foreach_sparse_union_loop op_caller zero_tile arg args rest s
      else foreach_sparse_union_loop op_caller zero_tile arg args rest
             (spawn op_caller index (get_sparse_tile zero_tile index arg)
                (map (get_sparse_tile zero_tile index) args) s))"

definition foreach_sparse_spawn ::
  "('t \<Rightarrow> 't list \<Rightarrow> 'r \<times> 'n) \<Rightarrow> 't \<Rightarrow> World \<Rightarrow> ArraySparcitySet \<Rightarrow>
   ('tr, 't) DistArray \<Rightarrow> ('tr, 't) DistArray list \<Rightarrow> ('t, 'r) spawn_state" where
  "foreach_sparse_spawn op_caller zero_tile world sparse_set arg args =
     (let s = \<lparr> sp_world = world, task_count = 0, tiles_vector = [], taskq = [] \<rparr>
      in case sparse_set of
           sparse_intersection \<Rightarrow> foreach_sparse_intersection_loop op_caller arg args (pmap arg) s
         | sparse_union \<Rightarrow> foreach_sparse_union_loop op_caller zero_tile arg args (pmap arg) s)"

text \<open>
  Modelled from the spec: \<^verbatim>\<open>world.await(ready)\<close> belongs to the task substrate. It
  returns when \<open>ready\<close> holds and lets the queued tasks run until then. The tasks run in
  the order of the queue; a task whose argument futures never resolve never runs; and
  when the queue is exhausted with \<open>ready\<close> still false, the call never returns: \<open>None\<close>.
\<close>

fun world_await ::
  "('n task_state \<Rightarrow> bool) \<Rightarrow> ('t \<Rightarrow> 't list \<Rightarrow> 'r \<times> 'n) \<Rightarrow>
   (nat \<times> 't Future \<times> 't Future list) list \<Rightarrow> 'n task_state \<Rightarrow> 'n task_state option" where
  "world_await ready op_caller [] st = (if ready st then Some st else None)"
| "world_await ready op_caller ((index, arg_tile, arg_tiles) # queue) st =
     (if ready st then Some st
      else (case taskq_add (\<lambda>t ts. snd (sparse_task op_caller index t ts st)) arg_tile arg_tiles of
              None \<Rightarrow> world_await ready op_caller queue st
            | Some st' \<Rightarrow> world_await ready op_caller queue st'))"

text \<open>
  \<^verbatim>\<open>
  TiledArray::Tensor<...> tile_norms(arg.trange().tiles_range(), 0);
  madness::AtomicInt counter; counter = 0;
  ...
  if(task_count > 0)
    world.await([&counter,task_count] () -> bool { return counter == task_count; });
  \<close>
\<close>

definition foreach_sparse_wait ::
  "('t \<Rightarrow> 't list \<Rightarrow> 'r \<times> 'n::zero) \<Rightarrow> ('t, 'r) spawn_state \<Rightarrow> World \<times> 'n task_state option" where
  "foreach_sparse_wait op_caller s =
     (let st = \<lparr> tile_norms = (\<lambda>_. 0), counter = 0 \<rparr>
      in if task_count s > 0
         then (sp_world s @ [Await (task_count s)],
               world_await (\<lambda>st. counter st = task_count s) op_caller (taskq s) st)
         else (sp_world s, Some st))"

text \<open>
  \<^verbatim>\<open>
  result_array_type result(world, arg.trange(),
      shape_type(world, tile_norms, arg.trange()), arg.pmap());
  for(it = tiles.begin(); it != tiles.end(); ++it) {
    const size_type index = it->first;
    if(! result.is_zero(index))
      result.set(it->first, it->second);
  }
  return result;
  \<close>
  The shape class is not among the sources: its constructor is the parameter
  \<open>shape_type\<close>, which gives the \<^verbatim>\<open>is_zero\<close> verdicts of the shape built from the norms and
  the tiled range.
\<close>

fun foreach_sparse_commit ::
  "(nat \<times> 'r Future) list \<Rightarrow> World \<times> ('tr, 'r) DistArray \<Rightarrow> World \<times> ('tr, 'r) DistArray" where
  "foreach_sparse_commit [] (world, result) = (world, result)"
| "foreach_sparse_commit ((index, tile) # rest) (world, result) =
     (if \<not> DistArray_is_zero result index
      then foreach_sparse_commit rest (world @ [Set index], DistArray_set result index tile)
      else foreach_sparse_commit rest (world, result))"

definition foreach_sparse ::
  "('t \<Rightarrow> 't list \<Rightarrow> 'r \<times> 'n::zero) \<Rightarrow> ((nat \<Rightarrow> 'n) \<Rightarrow> 'tr \<Rightarrow> nat \<Rightarrow> bool) \<Rightarrow> 't \<Rightarrow> World \<Rightarrow>
   ArraySparcitySet \<Rightarrow> ('tr, 't) DistArray \<Rightarrow> ('tr, 't) DistArray list \<Rightarrow>
   World \<times> ('tr, 'r) DistArray option" where
  "foreach_sparse op_caller shape_type zero_tile world sparse_set arg args =
     (let s = foreach_sparse_spawn op_caller zero_tile world sparse_set arg args
      in case foreach_sparse_wait op_caller s of
           (world1, None) \<Rightarrow> (world1, None)
         | (world1, Some st) \<Rightarrow>
             (let result = \<lparr> trange = trange arg,
                             shape = shape_type (tile_norms st) (trange arg),
                             pmap = pmap arg, tiles = (\<lambda>_. None) \<rparr>
              in case foreach_sparse_commit (tiles_vector s) (world1, result) of
                   (world2, result') \<Rightarrow> (world2, Some result')))"

section \<open>foreach.h: the in-place entry points\<close>





section \<open>Communicator (dist\_op/communicator.h)\<close>

text \<open>
  A \<^verbatim>\<open>Communicator\<close> holds one member, the pointer \<^verbatim>\<open>world_\<close>; its member functions are
  modelled as functions on the state of that world, as this process sees it. The state
  holds:
  \<^item> \<open>rank\<close>, \<open>world_size\<close> and \<open>world_id\<close>: \<^verbatim>\<open>world_->rank()\<close>, \<^verbatim>\<open>world_->size()\<close> and
    \<^verbatim>\<open>world_->id()\<close>;
  \<^item> \<open>binary_tree_info\<close>: \<^verbatim>\<open>world_->mpi.binary_tree_info(root, parent, child0, child1)\<close>,
    as a function from the root to the triple it writes into its reference parameters;
  \<^item> \<open>futures\<close>: the shared state of every \<^verbatim>\<open>madness::Future\<close>, by the number that names
    the future: its value, once set, and the callbacks registered on it;
  \<^item> \<open>heap\<close> and \<open>next_object\<close>: the \<^verbatim>\<open>DelayedSend\<close> objects made with \<^verbatim>\<open>new\<close> and not
    yet deleted, by address, and the next address \<^verbatim>\<open>new\<close> hands out;
  \<^item> \<open>issued\<close>: the operations issued to the collaborators (the cache and the task
    queue), in program order.
\<close>

datatype 'v cache_value = Plain 'v | Fut nat

datatype ('k, 'v) comm_action =
    Cache_set 'k "'v cache_value"
  | Cache_get 'k nat
  | Remote_set ProcessID 'k 'v
  | Remote_bcast_task ProcessID 'k 'v ProcessID
  | Local_bcast_children 'k nat ProcessID
  | Remote_group_bcast_task ProcessID nat 'k 'v ProcessID
  | Local_group_bcast_children nat 'k nat ProcessID

text \<open>
  The actions stand for these calls of the sources:
  \<^item> \<open>Cache_set key value\<close>: \<^verbatim>\<open>dist_cache::set_cache_data(key, value)\<close> on this process,
    with a plain value or with a future;
  \<^item> \<open>Cache_get key f\<close>: \<^verbatim>\<open>DistCache<Key>::get_cache_data(key, value)\<close> on this process;
  \<^item> \<open>Remote_set dest key v\<close>:
    \<^verbatim>\<open>world_->taskq.add(dest, dist_cache::set_cache_data<T>, key, v, hipri())\<close>;
  \<^item> \<open>Remote_bcast_task child key v root\<close>:
    \<^verbatim>\<open>world->taskq.add(child, bcast_task<Key, T>, world, key, v, root, hipri())\<close>;
  \<^item> \<open>Local_bcast_children key f root\<close>:
    \<^verbatim>\<open>world_->taskq.add(bcast_children<Key, T>, world_, key, value, root, hipri())\<close>, a task
    on this process that waits for the future;
  \<^item> the two group actions: the same calls with \<^verbatim>\<open>group_bcast_task\<close> and
    \<^verbatim>\<open>group_bcast_children\<close>, which carry the group's id.
\<close>

text \<open>
  The members \<^verbatim>\<open>dest_\<close>, \<^verbatim>\<open>key_\<close> and \<^verbatim>\<open>value_\<close> of a \<^verbatim>\<open>DelayedSend\<close> object (a name cannot
  end with an underscore here); \<open>ds_value\<close> is the number of the future.
\<close>

record 'k DelayedSend =
  ds_dest :: ProcessID
  ds_key :: 'k
  ds_value :: nat

record 'v future_state =
  fut_value :: "'v option"
  fut_callbacks :: "nat list"

record ('k, 'v) comm_world =
  rank :: ProcessID
  world_size :: int
  world_id :: nat
  binary_tree_info :: "ProcessID \<Rightarrow> ProcessID \<times> ProcessID \<times> ProcessID"
  futures :: "nat \<Rightarrow> 'v future_state"
  heap :: "nat \<Rightarrow> 'k DelayedSend option"
  next_object :: nat
  issued :: "('k, 'v) comm_action list"

text \<open>
  A member function that can fail an assertion returns whether it did, and the world as
  it leaves it.
\<close>

type_synonym ('k, 'v) outcome = "(error + unit) \<times> ('k, 'v) comm_world"

definition TA_ASSERT_in ::
  "('k, 'v) comm_world \<Rightarrow> bool \<Rightarrow> ('k, 'v) outcome \<Rightarrow> ('k, 'v) outcome" where
  "TA_ASSERT_in world cond rest = (if cond then rest else (Inl Exception, world))"

definition probe :: "('k, 'v) comm_world \<Rightarrow> nat \<Rightarrow> bool" where
  "probe world value = (fut_value (futures world value) \<noteq> None)"

definition issue :: "('k, 'v) comm_action \<Rightarrow> ('k, 'v) comm_world \<Rightarrow> ('k, 'v) comm_world" where
  "issue a world = world\<lparr>issued := issued world @ [a]\<rparr>"

text \<open>
  Modelled from the spec: \<^verbatim>\<open>DistCache\<close> (\<^verbatim>\<open>dist_cache.h\<close>) is not among the sources. A
  call of \<^verbatim>\<open>set_cache_data\<close> or \<^verbatim>\<open>get_cache_data\<close> on this process is kept as the action
  it issues to the cache.
\<close>

definition set_cache_data :: "'k \<Rightarrow> 'v cache_value \<Rightarrow> ('k, 'v) comm_world \<Rightarrow> ('k, 'v) comm_world" where
  "set_cache_data key value world = issue (Cache_set key value) world"

definition get_cache_data :: "'k \<Rightarrow> nat \<Rightarrow> ('k, 'v) comm_world \<Rightarrow> ('k, 'v) comm_world" where
  "get_cache_data key value world = issue (Cache_get key value) world"

text \<open>
  \<^verbatim>\<open>
  send(const ProcessID dest, const Key& key, const T& value) const {
    if(world_->rank() == dest) {
      // When dest is this process, skip the task and set the future immediately.
      dist_cache::set_cache_data(key, value);
    } else {
      // Spawn a remote task to set the value
      world_->taskq.add(dest, dist_cache::template set_cache_data<T>, key, value,
          madness::TaskAttributes::hipri());
    }
  }
  \<close>
\<close>

definition send :: "('k, 'v) comm_world \<Rightarrow> ProcessID \<Rightarrow> 'k \<Rightarrow> 'v \<Rightarrow> ('k, 'v) comm_world" where
  "send world dest key value =
     (if rank world = dest then set_cache_data key (Plain value) world
      else issue (Remote_set dest key value) world)"

text \<open>
  \<^verbatim>\<open>
  virtual void notify() {
    TA_ASSERT(value_.probe());
    Communicator d_op(world_);
    d_op.send(dest_, key_, value_.get());
    delete this;
  }
  \<close>
  The parameter \<open>this\<close> is the address of the callback object. Notifying an address that
  holds no object is undefined in C++; the model reports it as a failure.
\<close>

definition notify :: "('k, 'v) comm_world \<Rightarrow> nat \<Rightarrow> ('k, 'v) outcome" where
  "notify world this =
     (case heap world this of
        None \<Rightarrow> (Inl Exception, world)
      | Some self \<Rightarrow>
          (case fut_value (futures world (ds_value self)) of
             None \<Rightarrow> (Inl Exception, world)
           | Some v \<Rightarrow>
               (let world1 = send world (ds_dest self) (ds_key self) v
                in (Inr (), world1\<lparr>heap := (heap world1)(this := None)\<rparr>))))"

text \<open>
  Modelled from the spec: \<^verbatim>\<open>madness::Future\<close> belongs to the task substrate: a pending
  value that is resolved by one write and runs the continuations registered on it when it
  resolves. \<^verbatim>\<open>register_callback\<close> notifies at once when the future is already resolved and
  keeps the callback otherwise; \<^verbatim>\<open>set\<close> fails on a future that is already resolved, stores
  the value, and notifies every registered callback once, leaving none registered.
\<close>

definition register_callback :: "('k, 'v) comm_world \<Rightarrow> nat \<Rightarrow> nat \<Rightarrow> ('k, 'v) outcome" where
  "register_callback world value callback =
     (if probe world value then notify world callback
      else (Inr (), world\<lparr>futures := (futures world)
              (value := (futures world value)
                 \<lparr>fut_callbacks := fut_callbacks (futures world value) @ [callback]\<rparr>)\<rparr>))"

fun notify_all :: "('k, 'v) comm_world \<Rightarrow> nat list \<Rightarrow> ('k, 'v) outcome" where
  "notify_all world [] = (Inr (), world)"
| "notify_all world (callback # callbacks) =
     (case notify world callback of
        (Inl e, world1) \<Rightarrow> (Inl e, world1)
      | (Inr _, world1) \<Rightarrow> notify_all world1 callbacks)"

definition future_set :: "('k, 'v) comm_world \<Rightarrow> nat \<Rightarrow> 'v \<Rightarrow> ('k, 'v) outcome" where
  "future_set world value v =
     TA_ASSERT_in world (\<not> probe world value)
       (notify_all
          (world\<lparr>futures := (futures world)
             (value := \<lparr> fut_value = Some v, fut_callbacks = [] \<rparr>)\<rparr>)
          (fut_callbacks (futures world value)))"

text \<open>
  \<^verbatim>\<open>
  void send(ProcessID dest, const Key& key, const madness::Future<T>& value) const {
    if(world_->rank() == dest) {
      dist_cache::set_cache_data(key, value);
    } else {
      if(value.probe()) {
        world_->taskq.add(dest, dist_cache::template set_cache_data<T>, key,
            value.get(), madness::TaskAttributes::hipri());
      } else {
        DelayedSend<Key, T>* delayed_send_callback =
            new DelayedSend<Key, T>(*world_, dest, key, value);
        const_cast<madness::Future<T>&>(value).register_callback(delayed_send_callback);
      }
    }
  }
  \<close>
  \<^verbatim>\<open>new\<close> stores the object at the next free address.
\<close>

definition new_DelayedSend ::
  "('k, 'v) comm_world \<Rightarrow> ProcessID \<Rightarrow> 'k \<Rightarrow> nat \<Rightarrow> nat \<times> ('k, 'v) comm_world" where
  "new_DelayedSend world dest key value =
     (next_object world,
      world\<lparr> heap := (heap world)
               (next_object world \<mapsto> \<lparr> ds_dest = dest, ds_key = key, ds_value = value \<rparr>),
             next_object := Suc (next_object world) \<rparr>)"

definition send_future :: "('k, 'v) comm_world \<Rightarrow> ProcessID \<Rightarrow> 'k \<Rightarrow> nat \<Rightarrow> ('k, 'v) outcome" where
  "send_future world dest key value =
     (if rank world = dest then (Inr (), set_cache_data key (Fut value) world)
      else (case fut_value (futures world value) of
              Some v \<Rightarrow> (Inr (), issue (Remote_set dest key v) world)
            | None \<Rightarrow>
                (case new_DelayedSend world dest key value of
                   (delayed_send_callback, world1) \<Rightarrow>
                     register_callback world1 value delayed_send_callback)))"

text \<open>
  \<^verbatim>\<open>
  static void bcast_children(madness::World* world, const Key& key, const T& value,
      const ProcessID root) {
    ProcessID parent = -1, child0 = -1, child1 = -1;
    world->mpi.binary_tree_info(root, parent, child0, child1);
    if(child0 != -1)
      world->taskq.add(child0, bcast_task<Key, T>, world, key, value, root, hipri());
    if(child1 != -1)
      world->taskq.add(child1, bcast_task<Key, T>, world, key, value, root, hipri());
  }
  \<close>
\<close>

definition bcast_children ::
  "('k, 'v) comm_world \<Rightarrow> 'k \<Rightarrow> 'v \<Rightarrow> ProcessID \<Rightarrow> ('k, 'v) comm_world" where
  "bcast_children world key value root =
     (case binary_tree_info world root of
        (parent, child0, child1) \<Rightarrow>
          (let world1 = (if child0 \<noteq> - 1
                         then issue (Remote_bcast_task child0 key value root) world else world)
           in if child1 \<noteq> - 1
              then issue (Remote_bcast_task child1 key value root) world1 else world1))"

text \<open>
  \<^verbatim>\<open>
  void bcast(const Key& key, madness::Future<T>& value, const ProcessID root) const {
    TA_ASSERT(root >= 0 && root < world_->size());
    TA_ASSERT((world_->rank() == root) || (! value.probe()));
    if(world_->size() > 1) { // Do nothing for the trivial case
      if(world_->rank() == root) {
        if(value.probe())
          bcast_children(world_, key, value.get(), root);
        else
          world_->taskq.add(bcast_children<Key, T>, world_, key, value, root, hipri());
      } else {
        TA_ASSERT(! value.probe());
        dist_op::DistCache<Key>::get_cache_data(key, value);
      }
    }
  }
  \<close>
\<close>

definition bcast :: "('k, 'v) comm_world \<Rightarrow> 'k \<Rightarrow> nat \<Rightarrow> ProcessID \<Rightarrow> ('k, 'v) outcome" where
  "bcast world key value root =
     TA_ASSERT_in world (root \<ge> 0 \<and> root < world_size world)
    (TA_ASSERT_in world (rank world = root \<or> \<not> probe world value)
    (if world_size world > 1 then
       (if rank world = root then
          (case fut_value (futures world value) of
             Some v \<Rightarrow> (Inr (), bcast_children world key v root)
           | None \<Rightarrow> (Inr (), issue (Local_bcast_children key value root) world))
        else
          TA_ASSERT_in world (\<not> probe world value)
            (Inr (), get_cache_data key value world))
     else (Inr (), world)))"

text \<open>
  \<^verbatim>\<open>Group\<close> (\<^verbatim>\<open>group.h\<close>) is not among the sources. The record holds what the group
  broadcast asks of it: \<^verbatim>\<open>group.get_world().id()\<close>, \<^verbatim>\<open>group.size()\<close>, \<^verbatim>\<open>group.rank()\<close>,
  \<^verbatim>\<open>group.rank(proc)\<close>, \<^verbatim>\<open>group.id()\<close> and
  \<^verbatim>\<open>group.make_tree(parent, child0, child1, group_root)\<close>. The parameter \<^verbatim>\<open>group\<close> of the
  sources is written \<open>grp\<close>.
\<close>

record Group =
  group_world_id :: nat
  group_size :: int
  group_rank :: ProcessID
  group_rank_of :: "ProcessID \<Rightarrow> ProcessID"
  group_id :: nat
  make_tree :: "ProcessID \<Rightarrow> ProcessID \<times> ProcessID \<times> ProcessID"

definition group_bcast_children ::
  "('k, 'v) comm_world \<Rightarrow> Group \<Rightarrow> 'k \<Rightarrow> 'v \<Rightarrow> ProcessID \<Rightarrow> ('k, 'v) comm_world" where
  "group_bcast_children world grp key value group_root =
     (case make_tree grp group_root of
        (parent, child0, child1) \<Rightarrow>
          (let world1 = (if child0 \<noteq> - 1
                         then issue (Remote_group_bcast_task child0 (group_id grp) key value group_root) world
                         else world)
           in if child1 \<noteq> - 1
              then issue (Remote_group_bcast_task child1 (group_id grp) key value group_root) world1
              else world1))"

text \<open>
  \<^verbatim>\<open>
  void bcast(const Key& key, madness::Future<T>& value, const ProcessID group_root,
      const dist_op::Group& group) const {
    TA_ASSERT(group.get_world().id() == world_->id());
    TA_ASSERT(group_root >= 0 && group_root < group.size());
    TA_ASSERT((group.rank() == group_root) || (! value.probe()));
    TA_ASSERT(group.rank(world_->rank()) != -1);
    if(group.size() > 1) { // Do nothing for the trivial case
      if(group.rank() == group_root) {
        if(value.probe())
          group_bcast_children(world_, group, key, value.get(), group_root);
        else
          world_->taskq.add(& group_bcast_children<Key, T>, world_, group, key, value,
              group_root, hipri());
      } else {
        dist_op::DistCache<Key>::get_cache_data(key, value);
      }
    }
  }
  \<close>
\<close>

definition bcast_group ::
  "('k, 'v) comm_world \<Rightarrow> 'k \<Rightarrow> nat \<Rightarrow> ProcessID \<Rightarrow> Group \<Rightarrow> ('k, 'v) outcome" where
  "bcast_group world key value group_root grp =
     TA_ASSERT_in world (group_world_id grp = world_id world)
    (TA_ASSERT_in world (group_root \<ge> 0 \<and> group_root < group_size grp)
    (TA_ASSERT_in world (group_rank grp = group_root \<or> \<not> probe world value)
    (TA_ASSERT_in world (group_rank_of grp (rank world) \<noteq> - 1)
    (if group_size grp > 1 then
       (if group_rank grp = group_root then
          (case fut_value (futures world value) of
             Some v \<Rightarrow> (Inr (), group_bcast_children world grp key v group_root)
           | None \<Rightarrow>
               (Inr (), issue (Local_group_bcast_children (group_id grp) key value group_root) world))
        else (Inr (), get_cache_data key value world))
     else (Inr (), world)))))"

section \<open>Example inputs\<close>

text \<open>
  The inputs at which the theorems below are evaluated. A tile is a single integer here,
  and a tiled range is the list of its tile boundaries.

  Two dense arrays of four tiles on a world of two processes, seen from the process that
  owns tiles 0 and 1. Their tiled ranges have the same number of tiles and different tile
  boundaries.
\<close>

definition dense_a :: "(nat list, int) DistArray" where
  "dense_a = \<lparr> trange = [0, 2, 4, 6, 8], shape = (\<lambda>_. False), pmap = [0, 1],
               tiles = (\<lambda>index. if index < 4 then Some (10 + int index) else None) \<rparr>"

definition dense_b :: "(nat list, int) DistArray" where
  "dense_b = \<lparr> trange = [0, 1, 4, 5, 8], shape = (\<lambda>_. False), pmap = [0, 1],
               tiles = (\<lambda>index. if index < 4 then Some (100 * int index) else None) \<rparr>"

definition double_op :: "int \<Rightarrow> int \<Rightarrow> int list \<Rightarrow> int" where
  "double_op result arg args = 2 * arg"

definition add_op :: "int \<Rightarrow> int \<Rightarrow> int list \<Rightarrow> int" where
  "add_op result arg args = arg + sum_list args"

definition increment_op :: "int \<Rightarrow> int list \<Rightarrow> int" where
  "increment_op arg args = arg + 1"

text \<open>
  Two sparse arrays of three tiles, all owned by this process: \<open>sparse_a\<close> is non-zero at
  tiles 0 and 1 and zero at tile 2; \<open>sparse_b\<close> is non-zero at tile 0 and zero at tiles 1
  and 2. A zero tile has no tile stored. \<open>zeros_a\<close> is an array of two tiles that are both
  zero.
\<close>

definition sparse_a :: "(nat list, int) DistArray" where
  "sparse_a = \<lparr> trange = [0, 1, 9, 10], shape = (\<lambda>index. index = 2), pmap = [0, 1, 2],
                tiles = (\<lambda>index. if index < 2 then Some (10 + int index) else None) \<rparr>"

definition sparse_b :: "(nat list, int) DistArray" where
  "sparse_b = \<lparr> trange = [0, 1, 9, 10], shape = (\<lambda>index. index = 1 \<or> index = 2),
                pmap = [0, 1, 2],
                tiles = (\<lambda>index. if index = 0 then Some 5 else None) \<rparr>"

definition zeros_a :: "(nat list, int) DistArray" where
  "zeros_a = \<lparr> trange = [0, 1, 9], shape = (\<lambda>_. True), pmap = [0, 1], tiles = (\<lambda>_. None) \<rparr>"

text \<open>
  A sparse operation: the result tile is the sum of the argument tiles plus 7, and the value
  it returns is the magnitude of that tile. The example shape calls a tile zero when its
  norm is below twice the number of elements of the tile.
\<close>

definition norm_op :: "int \<Rightarrow> int \<Rightarrow> int list \<Rightarrow> int \<times> nat" where
  "norm_op result arg args = (arg + sum_list args + 7, nat \<bar>arg + sum_list args + 7\<bar>)"


definition example_shape_type :: "(nat \<Rightarrow> nat) \<Rightarrow> nat list \<Rightarrow> nat \<Rightarrow> bool" where
  "example_shape_type norms tr index = (norms index < 2 * (tr ! Suc index - tr ! index))"

text \<open>
  Process 0 of a world of four processes. Future 0 is pending with no callback, future 1
  is resolved to 99; no callback object is alive and nothing has been issued. The
  broadcast tree is the one rooted at process 0: no parent, children 1 and 2.
  \<open>single_world\<close> is the same process in a world of one process, where the tree has no
  children. The groups are a group of three processes of that world in which this process
  has rank 0, and a group of this process alone.
\<close>

definition example_world :: "(nat, int) comm_world" where
  "example_world =
     \<lparr> rank = 0, world_size = 4, world_id = 1,
       binary_tree_info = (\<lambda>root. (- 1, 1, 2)),
       futures = (\<lambda>f. if f = 1 then \<lparr> fut_value = Some 99, fut_callbacks = [] \<rparr>
                       else \<lparr> fut_value = None, fut_callbacks = [] \<rparr>),
       heap = (\<lambda>_. None), next_object = 0, issued = [] \<rparr>"

definition single_world :: "(nat, int) comm_world" where
  "single_world =
     example_world\<lparr> world_size := 1, binary_tree_info := (\<lambda>root. (- 1, - 1, - 1)) \<rparr>"

definition example_group :: Group where
  "example_group =
     \<lparr> group_world_id = 1, group_size = 3, group_rank = 0,
       group_rank_of = (\<lambda>proc. if proc = 0 then 0 else if proc = 2 then 1
                                else if proc = 3 then 2 else - 1),
       group_id = 8, make_tree = (\<lambda>group_root. (- 1, 2, 3)) \<rparr>"

definition single_group :: Group where
  "single_group =
     \<lparr> group_world_id = 1, group_size = 1, group_rank = 0,
       group_rank_of = (\<lambda>proc. if proc = 0 then 0 else - 1),
       group_id = 9, make_tree = (\<lambda>group_root. (- 1, - 1, - 1)) \<rparr>"

section \<open>Properties of TensorImpl\<close>

text \<open>
  Claim C10. For every \<^verbatim>\<open>TensorImpl\<close> and every index \<open>i\<close>: when \<open>i\<close> lies outside the
  tile range of the tiled range, \<open>owner\<close>, \<open>is_local\<close> and \<open>is_zero\<close> fail their assertion;
  when \<open>i\<close> lies inside, \<open>is_zero\<close> returns the shape's verdict on the ordinal of \<open>i\<close>, and
  \<open>owner\<close> and \<open>is_local\<close> return the process map's verdict on that ordinal; and in every
  case the object is left as it was.
\<close>

theorem TensorImpl_queries:
  "(\<not> tiles_includes this i \<longrightarrow>
      fst (owner this i) = Inl Exception \<and>
      fst (is_local this i) = Inl Exception \<and>
      fst (is_zero this i) = Inl Exception) \<and>
   (tiles_includes this i \<longrightarrow>
      fst (owner this i) = Inr (pmap_owner this (tiles_ordinal this i)) \<and>
      fst (is_local this i) = Inr (pmap_is_local this (tiles_ordinal this i)) \<and>
      fst (is_zero this i) = Inr (shape_is_zero this (tiles_ordinal this i))) \<and>
   snd (owner this i) = this \<and> snd (is_local this i) = this \<and> snd (is_zero this i) = this"
  by (simp add: owner_def is_local_def is_zero_def TA_ASSERT_def)

theorem TensorImpl_queries_witness:
  "\<not> tiles_includes example_impl 7 \<and>
   fst (owner example_impl 7) = Inl Exception \<and>
   fst (is_local example_impl 7) = Inl Exception \<and>
   fst (is_zero example_impl 7) = Inl Exception \<and>
   tiles_includes example_impl 2 \<and>
   fst (owner example_impl 2) = Inr 1 \<and>
   fst (is_local example_impl 2) = Inr False \<and>
   fst (is_zero example_impl 2) = Inr True \<and>
   snd (is_zero example_impl 2) = example_impl"
proof -
  have out: "\<not> tiles_includes example_impl 7" and inside: "tiles_includes example_impl 2"
    by (simp_all add: example_impl_def)
  have vals: "pmap_owner example_impl (tiles_ordinal example_impl 2) = 1"
    "pmap_is_local example_impl (tiles_ordinal example_impl 2) = False"
    "shape_is_zero example_impl (tiles_ordinal example_impl 2) = True"
    by (simp_all add: example_impl_def)
  from TensorImpl_queries [of example_impl 7] out
  have a: "fst (owner example_impl 7) = Inl Exception \<and>
      fst (is_local example_impl 7) = Inl Exception \<and>
      fst (is_zero example_impl 7) = Inl Exception"
    by blast
  from TensorImpl_queries [of example_impl 2] inside
  have b: "fst (owner example_impl 2) = Inr (pmap_owner example_impl (tiles_ordinal example_impl 2)) \<and>
      fst (is_local example_impl 2) = Inr (pmap_is_local example_impl (tiles_ordinal example_impl 2)) \<and>
      fst (is_zero example_impl 2) = Inr (shape_is_zero example_impl (tiles_ordinal example_impl 2)) \<and>
      snd (is_zero example_impl 2) = example_impl"
    by blast
  from a b out inside show ?thesis
    unfolding vals by simp
qed

section \<open>Properties of the dense foreach\<close>

lemma those_map_Some: "those (map Some ts) = Some ts"
  by (induction ts) simp_all

lemma foreach_dense_loop_world:
  "fst (foreach_dense_loop task arg args idxs (world, result)) =
     world @ concat (map (\<lambda>index. [TaskAdd index, Set index]) idxs)"
  by (induction idxs arbitrary: world result) (simp_all add: Let_def)

lemma foreach_dense_loop_meta:
  "trange (snd (foreach_dense_loop task arg args idxs (world, result))) = trange result \<and>
   shape (snd (foreach_dense_loop task arg args idxs (world, result))) = shape result \<and>
   pmap (snd (foreach_dense_loop task arg args idxs (world, result))) = pmap result"
  by (induction idxs arbitrary: world result) (simp_all add: Let_def DistArray_set_def)

lemma foreach_dense_loop_tiles:
  "tiles (snd (foreach_dense_loop task arg args idxs (world, result))) index =
     (if index \<in> set idxs
      then taskq_add task (DistArray_find arg index) (map (\<lambda>a. DistArray_find a index) args)
      else tiles result index)"
  by (induction idxs arbitrary: world result) (auto simp add: Let_def DistArray_set_def)

lemma count_list_task_set_pairs:
  "count_list (concat (map (\<lambda>index. [TaskAdd index, Set index]) idxs)) (TaskAdd i) =
     count_list idxs i"
  by (induction idxs) simp_all

lemma count_list_distinct: "distinct xs \<Longrightarrow> count_list xs x = (if x \<in> set xs then 1 else 0)"
  by (induction xs) auto


text \<open>
  The loop for an arbitrary task function: what it issues, and which tile it stores where.
\<close>

lemma foreach_dense_task_result:
  assumes "foreach_dense task world arg args = (world', result)"
  shows "trange result = trange arg \<and> pmap result = pmap arg \<and>
     world' = world @ concat (map (\<lambda>index. [TaskAdd index, Set index]) (pmap arg)) \<and>
     (distinct (pmap arg) \<longrightarrow>
        (\<forall>index. count_list (drop (length world) world') (TaskAdd index) =
           (if index \<in> set (pmap arg) then 1 else 0))) \<and>
     (\<forall>index \<in> set (pmap arg).
        tiles result index =
          taskq_add task (DistArray_find arg index) (map (\<lambda>a. DistArray_find a index) args) \<and>
        (\<forall>t ts. tiles arg index = Some t \<and> map (\<lambda>a. tiles a index) args = map Some ts \<longrightarrow>
           tiles result index = Some (task t ts))) \<and>
     (\<forall>index. index \<notin> set (pmap arg) \<longrightarrow> tiles result index = None)"
proof -
  let ?r0 = "\<lparr> trange = trange arg, shape = (\<lambda>_. False), pmap = pmap arg, tiles = (\<lambda>_. None) \<rparr>"
  have run: "foreach_dense_loop task arg args (pmap arg) (world, ?r0) = (world', result)"
    using assms by (simp add: foreach_dense_def)
  have w: "world' = world @ concat (map (\<lambda>index. [TaskAdd index, Set index]) (pmap arg))"
    using foreach_dense_loop_world [of task arg args "pmap arg" world ?r0] run by simp
  have m: "trange result = trange arg \<and> pmap result = pmap arg"
    using foreach_dense_loop_meta [of task arg args "pmap arg" world ?r0] run by simp
  have t: "tiles result index =
     (if index \<in> set (pmap arg)
      then taskq_add task (DistArray_find arg index) (map (\<lambda>a. DistArray_find a index) args)
      else None)" for index
    using foreach_dense_loop_tiles [of task arg args "pmap arg" world ?r0 index] run by simp
  have c: "distinct (pmap arg) \<longrightarrow>
        (\<forall>index. count_list (drop (length world) world') (TaskAdd index) =
           (if index \<in> set (pmap arg) then 1 else 0))"
    by (simp add: w count_list_task_set_pairs count_list_distinct)
  have e: "tiles result index = Some (task t ts)"
    if "index \<in> set (pmap arg)" "tiles arg index = Some t"
      "map (\<lambda>a. tiles a index) args = map Some ts"
    for index t ts
    using that by (simp add: t taskq_add_def DistArray_find_def those_map_Some)
  show ?thesis
    using w m c t e by simp
qed

lemma void_op_helper_false_task: "void_op_helper_false op result0 = op result0"
  by (rule ext, rule ext) (simp add: void_op_helper_false_def)

lemma void_op_helper_true_task: "void_op_helper_true iop = iop"
  by (rule ext, rule ext) (simp add: void_op_helper_true_def)

text \<open>
  Claim C5. For every dense foreach, with the task function that the sources build from the
  user's operation \<^verbatim>\<open>op\<close> (through \<open>void_op_helper_false\<close> when a new array is made, where
  \<open>result0\<close> is the default-constructed result tile handed to \<^verbatim>\<open>op\<close>, and through
  \<open>void_op_helper_true\<close> when the array is changed in place): the result array is built on
  the tiled range and the process map of the first input; the calls issued to the world
  are, for each index that the process map of the first input yields and in that order, one
  \<open>TaskAdd\<close> followed by the \<open>Set\<close> of the result tile, so that exactly one task is spawned
  for each locally owned index when the map yields every index once; the tile stored at
  such an index is the future of \<^verbatim>\<open>op\<close> applied to the tiles that \<open>find\<close> returns for the
  operands at that index, that is \<open>op result0 t ts\<close> (in place: \<open>iop t ts\<close>) once these have
  resolved to \<open>t\<close> and \<open>ts\<close>; and no tile is set at an index that is not locally owned.
\<close>

theorem foreach_dense_result:
  assumes new: "foreach_dense (void_op_helper_false op result0) world arg args = (world', result)"
    and inplace: "foreach_dense (void_op_helper_true iop) iworld iarg iargs = (iworld', iresult)"
  shows "(trange result = trange arg \<and> pmap result = pmap arg \<and>
     world' = world @ concat (map (\<lambda>index. [TaskAdd index, Set index]) (pmap arg)) \<and>
     (distinct (pmap arg) \<longrightarrow>
        (\<forall>index. count_list (drop (length world) world') (TaskAdd index) =
           (if index \<in> set (pmap arg) then 1 else 0))) \<and>
     (\<forall>index \<in> set (pmap arg).
        tiles result index =
          taskq_add (\<lambda>t ts. op result0 t ts) (DistArray_find arg index)
            (map (\<lambda>a. DistArray_find a index) args) \<and>
        (\<forall>t ts. tiles arg index = Some t \<and> map (\<lambda>a. tiles a index) args = map Some ts \<longrightarrow>
           tiles result index = Some (op result0 t ts))) \<and>
     (\<forall>index. index \<notin> set (pmap arg) \<longrightarrow> tiles result index = None)) \<and>
    (trange iresult = trange iarg \<and> pmap iresult = pmap iarg \<and>
     iworld' = iworld @ concat (map (\<lambda>index. [TaskAdd index, Set index]) (pmap iarg)) \<and>
     (distinct (pmap iarg) \<longrightarrow>
        (\<forall>index. count_list (drop (length iworld) iworld') (TaskAdd index) =
           (if index \<in> set (pmap iarg) then 1 else 0))) \<and>
     (\<forall>index \<in> set (pmap iarg).
        tiles iresult index =
          taskq_add (\<lambda>t ts. iop t ts) (DistArray_find iarg index)
            (map (\<lambda>a. DistArray_find a index) iargs) \<and>
        (\<forall>t ts. tiles iarg index = Some t \<and> map (\<lambda>a. tiles a index) iargs = map Some ts \<longrightarrow>
           tiles iresult index = Some (iop t ts))) \<and>
     (\<forall>index. index \<notin> set (pmap iarg) \<longrightarrow> tiles iresult index = None))"
proof (rule conjI)
  show "trange result = trange arg \<and> pmap result = pmap arg \<and>
     world' = world @ concat (map (\<lambda>index. [TaskAdd index, Set index]) (pmap arg)) \<and>
     (distinct (pmap arg) \<longrightarrow>
        (\<forall>index. count_list (drop (length world) world') (TaskAdd index) =
           (if index \<in> set (pmap arg) then 1 else 0))) \<and>
     (\<forall>index \<in> set (pmap arg).
        tiles result index =
          taskq_add (\<lambda>t ts. op result0 t ts) (DistArray_find arg index)
            (map (\<lambda>a. DistArray_find a index) args) \<and>
        (\<forall>t ts. tiles arg index = Some t \<and> map (\<lambda>a. tiles a index) args = map Some ts \<longrightarrow>
           tiles result index = Some (op result0 t ts))) \<and>
     (\<forall>index. index \<notin> set (pmap arg) \<longrightarrow> tiles result index = None)"
    using foreach_dense_task_result [OF new]
    unfolding void_op_helper_false_task .
next
  show "trange iresult = trange iarg \<and> pmap iresult = pmap iarg \<and>
     iworld' = iworld @ concat (map (\<lambda>index. [TaskAdd index, Set index]) (pmap iarg)) \<and>
     (distinct (pmap iarg) \<longrightarrow>
        (\<forall>index. count_list (drop (length iworld) iworld') (TaskAdd index) =
           (if index \<in> set (pmap iarg) then 1 else 0))) \<and>
     (\<forall>index \<in> set (pmap iarg).
        tiles iresult index =
          taskq_add (\<lambda>t ts. iop t ts) (DistArray_find iarg index)
            (map (\<lambda>a. DistArray_find a index) iargs) \<and>
        (\<forall>t ts. tiles iarg index = Some t \<and> map (\<lambda>a. tiles a index) iargs = map Some ts \<longrightarrow>
           tiles iresult index = Some (iop t ts))) \<and>
     (\<forall>index. index \<notin> set (pmap iarg) \<longrightarrow> tiles iresult index = None)"
    using foreach_dense_task_result [OF inplace]
    unfolding void_op_helper_true_task .
qed

theorem foreach_dense_result_witness:
  "distinct (pmap dense_a) \<and>
   fst (foreach_dense (void_op_helper_false double_op 0) [] dense_a []) =
     [TaskAdd 0, Set 0, TaskAdd 1, Set 1] \<and>
   count_list (fst (foreach_dense (void_op_helper_false double_op 0) [] dense_a [])) (TaskAdd 1) = 1 \<and>
   trange (snd (foreach_dense (void_op_helper_false double_op 0) [] dense_a [])) = [0, 2, 4, 6, 8] \<and>
   pmap (snd (foreach_dense (void_op_helper_false double_op 0) [] dense_a [])) = [0, 1] \<and>
   tiles (snd (foreach_dense (void_op_helper_false double_op 0) [] dense_a [])) 0 = Some 20 \<and>
   tiles (snd (foreach_dense (void_op_helper_false double_op 0) [] dense_a [])) 1 = Some 22 \<and>
   tiles (snd (foreach_dense (void_op_helper_false double_op 0) [] dense_a [])) 2 = None \<and>
   fst (foreach_dense (void_op_helper_true increment_op) [] dense_a [dense_a]) =
     [TaskAdd 0, Set 0, TaskAdd 1, Set 1] \<and>
   tiles (snd (foreach_dense (void_op_helper_true increment_op) [] dense_a [dense_a])) 0 = Some 11 \<and>
   tiles (snd (foreach_dense (void_op_helper_true increment_op) [] dense_a [dense_a])) 1 = Some 12 \<and>
   tiles (snd (foreach_dense (void_op_helper_true increment_op) [] dense_a [dense_a])) 2 = None"
proof -
  let ?run = "foreach_dense (void_op_helper_false double_op 0) [] dense_a []"
  let ?irun = "foreach_dense (void_op_helper_true increment_op) [] dense_a [dense_a]"
  have run: "?run = (fst ?run, snd ?run)" and irun: "?irun = (fst ?irun, snd ?irun)"
    by simp_all
  have d: "distinct (pmap dense_a)" and p: "pmap dense_a = [0, 1]"
    and tr: "trange dense_a = [0, 2, 4, 6, 8]"
    and t0: "tiles dense_a 0 = Some 10" and t1: "tiles dense_a 1 = Some 11"
    by (simp_all add: dense_a_def)
  note both = foreach_dense_result [OF run irun]
  note r = both [THEN conjunct1]
  note ir = both [THEN conjunct2]
  from r have w: "fst ?run = [TaskAdd 0, Set 0, TaskAdd 1, Set 1]"
    by (simp add: p)
  from r d have c: "count_list (fst ?run) (TaskAdd 1) = 1"
    by (simp add: p)
  from r have m: "trange (snd ?run) = [0, 2, 4, 6, 8]" "pmap (snd ?run) = [0, 1]"
    by (simp_all add: p tr)
  from r t0 have a0: "tiles (snd ?run) 0 = Some 20"
    by (simp add: p double_op_def taskq_add_def DistArray_find_def)
  from r t1 have a1: "tiles (snd ?run) 1 = Some 22"
    by (simp add: p double_op_def taskq_add_def DistArray_find_def)
  from r have a2: "tiles (snd ?run) 2 = None"
    by (simp add: p)
  from ir have iw: "fst ?irun = [TaskAdd 0, Set 0, TaskAdd 1, Set 1]"
    by (simp add: p)
  from ir t0 have i0: "tiles (snd ?irun) 0 = Some 11"
    by (simp add: p increment_op_def taskq_add_def DistArray_find_def)
  from ir t1 have i1: "tiles (snd ?irun) 1 = Some 12"
    by (simp add: p increment_op_def taskq_add_def DistArray_find_def)
  from ir have i2: "tiles (snd ?irun) 2 = None"
    by (simp add: p)
  from d w c m a0 a1 a2 iw i0 i1 i2 show ?thesis by simp
qed

text \<open>
  Claim C3. The claim asks foreach over several arrays to fail a precondition check, before
  any task is spawned, when the operands' tiled ranges differ. The sources define
  \<open>compare_trange\<close> for that comparison and never call it: \<open>foreach_dense\<close> has no failing
  branch at all. Evaluated at \<open>dense_a\<close> and \<open>dense_b\<close>, whose tiled ranges differ
  (\<open>compare_trange\<close> is false), the dense foreach spawns the task of every local index and
  sets every result tile.
\<close>

theorem foreach_dense_mismatched_trange:
  "trange dense_a \<noteq> trange dense_b \<and> \<not> compare_trange dense_a [dense_b] \<and>
   fst (foreach_dense (void_op_helper_false add_op 0) [] dense_a [dense_b]) =
     [TaskAdd 0, Set 0, TaskAdd 1, Set 1] \<and>
   tiles (snd (foreach_dense (void_op_helper_false add_op 0) [] dense_a [dense_b])) 0 = Some 10 \<and>
   tiles (snd (foreach_dense (void_op_helper_false add_op 0) [] dense_a [dense_b])) 1 = Some 111"
  by (simp add: foreach_dense_def dense_a_def dense_b_def void_op_helper_false_def add_op_def
      taskq_add_def DistArray_find_def DistArray_set_def)

section \<open>Properties of the sparse foreach\<close>

lemma fold_spawn:
  "fold (\<lambda>index. spawn op_caller index (F index) (G index)) js s =
     s\<lparr> sp_world := sp_world s @ map TaskAdd js,
        taskq := taskq s @ map (\<lambda>index. (index, F index, G index)) js,
        task_count := task_count s + int (length js),
        tiles_vector := tiles_vector s @
          map (\<lambda>index. (index, taskq_add (\<lambda>t ts. fst (op_caller t ts)) (F index) (G index))) js \<rparr>"
  by (induction js arbitrary: s) (simp_all add: spawn_def Let_def)

text \<open>
  What the two loops do, as the sources have them: the intersection loop spawns at the
  local indices where \<open>is_zero_intersection\<close> holds, the union loop at those where
  \<open>is_zero_union\<close> holds.
\<close>

lemma intersection_loop_fold:
  "foreach_sparse_intersection_loop op_caller arg args idxs s =
     fold (\<lambda>index. spawn op_caller index (DistArray_find arg index)
                     (map (\<lambda>a. DistArray_find a index) args))
       (filter (\<lambda>index. is_zero_intersection
                  (DistArray_is_zero arg index # map (\<lambda>a. DistArray_is_zero a index) args)) idxs) s"
  by (induction idxs arbitrary: s) simp_all

lemma union_loop_fold:
  "foreach_sparse_union_loop op_caller zero_tile arg args idxs s =
     fold (\<lambda>index. spawn op_caller index (get_sparse_tile zero_tile index arg)
                     (map (get_sparse_tile zero_tile index) args))
       (filter (\<lambda>index. is_zero_union
                  (DistArray_is_zero arg index # map (\<lambda>a. DistArray_is_zero a index) args)) idxs) s"
  by (induction idxs arbitrary: s) simp_all

lemma foreach_sparse_spawn_shape:
  "\<exists>js F G. set js \<subseteq> set (pmap arg) \<and> (distinct (pmap arg) \<longrightarrow> distinct js) \<and>
     foreach_sparse_spawn op_caller zero_tile world sparse_set arg args =
       \<lparr> sp_world = world @ map TaskAdd js,
         task_count = int (length js),
         tiles_vector =
           map (\<lambda>index. (index, taskq_add (\<lambda>t ts. fst (op_caller t ts)) (F index) (G index))) js,
         taskq = map (\<lambda>index. (index, F index, G index)) js \<rparr>"
proof (cases sparse_set)
  case sparse_union
  let ?js = "filter (\<lambda>index. is_zero_union
     (DistArray_is_zero arg index # map (\<lambda>a. DistArray_is_zero a index) args)) (pmap arg)"
  show ?thesis
    apply (rule exI [of _ ?js])
    apply (rule exI [of _ "\<lambda>index. get_sparse_tile zero_tile index arg"])
    apply (rule exI [of _ "\<lambda>index. map (get_sparse_tile zero_tile index) args"])
    apply (simp add: foreach_sparse_spawn_def sparse_union union_loop_fold fold_spawn)
    done
next
  case sparse_intersection
  let ?js = "filter (\<lambda>index. is_zero_intersection
     (DistArray_is_zero arg index # map (\<lambda>a. DistArray_is_zero a index) args)) (pmap arg)"
  show ?thesis
    apply (rule exI [of _ ?js])
    apply (rule exI [of _ "\<lambda>index. DistArray_find arg index"])
    apply (rule exI [of _ "\<lambda>index. map (\<lambda>a. DistArray_find a index) args"])
    apply (simp add: foreach_sparse_spawn_def sparse_intersection intersection_loop_fold fold_spawn)
    done
qed

lemma foreach_sparse_spawned_indices:
  "map fst (taskq (foreach_sparse_spawn op_caller zero_tile world sparse_set arg args)) =
     filter (\<lambda>index.
        (case sparse_set of
           sparse_intersection \<Rightarrow> is_zero_intersection
             (DistArray_is_zero arg index # map (\<lambda>a. DistArray_is_zero a index) args)
         | sparse_union \<Rightarrow> is_zero_union
             (DistArray_is_zero arg index # map (\<lambda>a. DistArray_is_zero a index) args)))
       (pmap arg)"
  by (cases sparse_set)
     (simp_all add: foreach_sparse_spawn_def intersection_loop_fold union_loop_fold fold_spawn
        comp_def)

text \<open>
  Claim C1. The claim asks the intersection policy to spawn a task exactly at the local
  indices where every operand is non-zero. The loop of the sources skips an index when
  \<open>is_zero_intersection\<close> is false, that is when no operand is zero there, and spawns
  otherwise. Evaluated at \<open>sparse_a\<close> (zero at tile 2 only) and \<open>sparse_b\<close> (zero at tiles 1
  and 2): no task is spawned at tile 0, where both operands are non-zero; tasks are
  spawned at tiles 1 and 2, where an operand is zero, with the \<open>find\<close> of a tile that is
  not stored among their arguments, and the wait for them never returns. For \<open>sparse_a\<close>
  alone, the only task is the one at its zero tile.
\<close>

theorem foreach_sparse_intersection_at_example:
  "map (DistArray_is_zero sparse_a) [0, 1, 2] = [False, False, True] \<and>
   map (DistArray_is_zero sparse_b) [0, 1, 2] = [False, True, True] \<and>
   foreach_sparse (nonvoid_op_helper_false norm_op 0) example_shape_type 0 []
       sparse_intersection sparse_a [sparse_b] =
     ([TaskAdd 1, TaskAdd 2, Await 2], None) \<and>
   taskq (foreach_sparse_spawn (nonvoid_op_helper_false norm_op 0) 0 []
       sparse_intersection sparse_a [sparse_b]) =
     [(1, Some 11, [None]), (2, None, [None])] \<and>
   foreach_sparse (nonvoid_op_helper_false norm_op 0) example_shape_type 0 []
       sparse_intersection sparse_a [] =
     ([TaskAdd 2, Await 1], None)"
  by (simp add: foreach_sparse_def foreach_sparse_spawn_def foreach_sparse_wait_def
      sparse_a_def sparse_b_def spawn_def is_zero_intersection_def DistArray_is_zero_def
      DistArray_find_def taskq_add_def Let_def)

text \<open>
  Claim C2. The claim asks the union policy to spawn a task exactly at the local indices
  where at least one operand is non-zero, with a zero tile in place of each zero operand.
  The loop of the sources skips an index when \<open>is_zero_union\<close> is false, that is when some
  operand is non-zero there, and spawns otherwise. Evaluated at \<open>sparse_a\<close> and \<open>sparse_b\<close>:
  no task is spawned at tiles 0 and 1, where \<open>sparse_a\<close> is non-zero; the only task is the
  one at tile 2, where both operands are zero, and both its arguments are the zero tile.
\<close>

theorem foreach_sparse_union_at_example:
  "map (DistArray_is_zero sparse_a) [0, 1, 2] = [False, False, True] \<and>
   map (DistArray_is_zero sparse_b) [0, 1, 2] = [False, True, True] \<and>
   fst (foreach_sparse (nonvoid_op_helper_false norm_op 0) example_shape_type 0 []
       sparse_union sparse_a [sparse_b]) =
     [TaskAdd 2, Await 1, Set 2] \<and>
   taskq (foreach_sparse_spawn (nonvoid_op_helper_false norm_op 0) 0 []
       sparse_union sparse_a [sparse_b]) =
     [(2, Some 0, [Some 0])]"
  by (simp add: foreach_sparse_def foreach_sparse_spawn_def foreach_sparse_wait_def
      sparse_a_def sparse_b_def spawn_def is_zero_union_def DistArray_is_zero_def
      DistArray_find_def DistArray_set_def get_sparse_tile_def taskq_add_def sparse_task_def
      nonvoid_op_helper_false_def norm_op_def example_shape_type_def Let_def)

lemma world_await_ready:
  "world_await ready op_caller queue st = Some st' \<Longrightarrow> ready st'"
  by (induction ready op_caller queue st rule: world_await.induct)
     (auto split: if_splits option.splits)

lemma world_await_short:
  "counter st + int (length queue) < n \<Longrightarrow>
   world_await (\<lambda>st. counter st = n) op_caller queue st = None"
proof (induction queue arbitrary: st)
  case Nil
  then show ?case by simp
next
  case (Cons task queue)
  obtain index arg_tile arg_tiles where task: "task = (index, arg_tile, arg_tiles)"
    by (cases task)
  have ne: "counter st \<noteq> n" using Cons.prems by simp
  show ?case
  proof (cases "taskq_add (\<lambda>t ts. snd (sparse_task op_caller index t ts st)) arg_tile arg_tiles")
    case None
    then show ?thesis using Cons ne task by simp
  next
    case (Some st1)
    then have "counter st1 = counter st + 1"
      by (auto simp: taskq_add_def sparse_task_def split: option.splits prod.splits)
    then show ?thesis using Cons ne task Some by simp
  qed
qed

lemma world_await_exact:
  assumes "counter st + int (length queue) = n"
    and "world_await (\<lambda>st. counter st = n) op_caller queue st = Some st'"
    and "distinct (map fst queue)"
  shows "counter st' = n \<and>
     (\<forall>(index, arg_tile, arg_tiles) \<in> set queue.
        \<exists>t ts. arg_tile = Some t \<and> those arg_tiles = Some ts \<and>
          tile_norms st' index = snd (op_caller t ts)) \<and>
     (\<forall>index. index \<notin> fst ` set queue \<longrightarrow> tile_norms st' index = tile_norms st index)"
  using assms
proof (induction queue arbitrary: st)
  case Nil
  then show ?case by (simp split: if_splits)
next
  case (Cons task queue)
  obtain index arg_tile arg_tiles where task: "task = (index, arg_tile, arg_tiles)"
    by (cases task)
  have ne: "counter st \<noteq> n" using Cons.prems(1) by simp
  show ?case
  proof (cases "taskq_add (\<lambda>t ts. snd (sparse_task op_caller index t ts st)) arg_tile arg_tiles")
    case None
    have "counter st + int (length queue) < n" using Cons.prems(1) by simp
    then have "world_await (\<lambda>st. counter st = n) op_caller queue st = None"
      by (rule world_await_short)
    then show ?thesis using Cons.prems(2) ne task None by simp
  next
    case (Some st1)
    then obtain t ts where inputs: "arg_tile = Some t" "those arg_tiles = Some ts"
      and st1: "st1 = snd (sparse_task op_caller index t ts st)"
      by (auto simp: taskq_add_def split: option.splits)
    have c1: "counter st1 = counter st + 1"
      and n1: "tile_norms st1 = (tile_norms st)(index := snd (op_caller t ts))"
      by (simp_all add: st1 sparse_task_def split: prod.splits)
    have run: "world_await (\<lambda>st. counter st = n) op_caller queue st1 = Some st'"
      using Cons.prems(2) ne task Some by simp
    have cnt: "counter st1 + int (length queue) = n" using Cons.prems(1) c1 by simp
    have dist: "distinct (map fst queue)" and fresh: "index \<notin> fst ` set queue"
      using Cons.prems(3) task by auto
    note IH = Cons.IH [OF cnt run dist]
    from IH fresh have here: "tile_norms st' index = snd (op_caller t ts)"
      by (simp add: n1)
    have rest: "tile_norms st' i = tile_norms st i" if "i \<notin> fst ` set (task # queue)" for i
    proof -
      from that have "i \<noteq> index" "i \<notin> fst ` set queue" using task by auto
      with IH show ?thesis by (simp add: n1)
    qed
    from IH here rest inputs show ?thesis
      by (simp add: task)
  qed
qed

lemma world_await_total:
  assumes "counter st + int (length queue) = n"
    and "list_all (\<lambda>(index, arg_tile, arg_tiles). arg_tile \<noteq> None \<and> those arg_tiles \<noteq> None) queue"
  shows "\<exists>st'. world_await (\<lambda>st. counter st = n) op_caller queue st = Some st'"
  using assms
proof (induction queue arbitrary: st)
  case Nil
  then show ?case by simp
next
  case (Cons task queue)
  obtain index arg_tile arg_tiles where task: "task = (index, arg_tile, arg_tiles)"
    by (cases task)
  from Cons.prems(2) task obtain t ts where inputs: "arg_tile = Some t" "those arg_tiles = Some ts"
    by auto
  let ?st1 = "snd (sparse_task op_caller index t ts st)"
  have c1: "counter ?st1 = counter st + 1"
    by (simp add: sparse_task_def split: prod.splits)
  have "\<exists>st'. world_await (\<lambda>st. counter st = n) op_caller queue ?st1 = Some st'"
    using Cons.IH [of ?st1] Cons.prems c1 by simp
  then show ?case
    using Cons.prems(1) by (simp add: task inputs taskq_add_def)
qed

lemma foreach_sparse_commit_world:
  "fst (foreach_sparse_commit tv (world, result)) =
     world @ map Set (filter (\<lambda>index. \<not> DistArray_is_zero result index) (map fst tv))"
  by (induction tv arbitrary: world result) (auto simp: DistArray_is_zero_def DistArray_set_def)

lemma foreach_sparse_commit_meta:
  "trange (snd (foreach_sparse_commit tv (world, result))) = trange result \<and>
   shape (snd (foreach_sparse_commit tv (world, result))) = shape result \<and>
   pmap (snd (foreach_sparse_commit tv (world, result))) = pmap result"
  by (induction tv arbitrary: world result) (auto simp: DistArray_is_zero_def DistArray_set_def)

lemma foreach_sparse_commit_tiles:
  "distinct (map fst tv) \<Longrightarrow>
   tiles (snd (foreach_sparse_commit tv (world, result))) index =
     (case map_of tv index of
        None \<Rightarrow> tiles result index
      | Some tile \<Rightarrow> if DistArray_is_zero result index then tiles result index else tile)"
proof (induction tv arbitrary: world result)
  case Nil
  then show ?case by simp
next
  case (Cons p tv)
  obtain i tile where p: "p = (i, tile)" by (cases p)
  from Cons.prems p have d: "distinct (map fst tv)" and fresh: "map_of tv i = None"
    by (auto simp: map_of_eq_None_iff)
  show ?case
    using Cons.IH [OF d] fresh
    by (auto simp: p DistArray_is_zero_def DistArray_set_def split: option.splits)
qed


text \<open>
  The sparse foreach returns when the arguments of every task it spawned resolve.
\<close>

lemma foreach_sparse_returns:
  fixes op_caller :: "'t \<Rightarrow> 't list \<Rightarrow> 'r \<times> 'n::zero"
  assumes "list_all (\<lambda>(index, arg_tile, arg_tiles). arg_tile \<noteq> None \<and> those arg_tiles \<noteq> None)
     (taskq (foreach_sparse_spawn op_caller zero_tile world sparse_set arg args))"
  shows "\<exists>world' result.
     foreach_sparse op_caller shape_type zero_tile world sparse_set arg args = (world', Some result)"
proof -
  let ?s = "foreach_sparse_spawn op_caller zero_tile world sparse_set arg args"
  let ?st0 = "\<lparr> tile_norms = (\<lambda>_. 0), counter = 0 \<rparr> :: 'n task_state"
  obtain js F G where s: "?s =
       \<lparr> sp_world = world @ map TaskAdd js,
         task_count = int (length js),
         tiles_vector =
           map (\<lambda>index. (index, taskq_add (\<lambda>t ts. fst (op_caller t ts)) (F index) (G index))) js,
         taskq = map (\<lambda>index. (index, F index, G index)) js \<rparr>"
    using foreach_sparse_spawn_shape [of arg op_caller zero_tile world sparse_set args] by blast
  have tc: "counter ?st0 + int (length (taskq ?s)) = task_count ?s"
    by (simp add: s)
  obtain st where "world_await (\<lambda>st. counter st = task_count ?s) op_caller (taskq ?s) ?st0 = Some st"
    using world_await_total [OF tc assms] by blast
  then have "\<exists>w st. foreach_sparse_wait op_caller ?s = (w, Some st)"
    by (simp add: foreach_sparse_wait_def Let_def)
  then show ?thesis
    by (auto simp: foreach_sparse_def Let_def split: prod.splits)
qed

text \<open>
  Claim C4. For every sparse foreach that returns a result, with \<open>s\<close> the state after the
  spawning loop and the process map yielding every index once: the wait has ended in a
  state \<open>st\<close> whose counter equals \<open>task_count\<close>, the number of tasks spawned, and every
  spawned task has run by then, its arguments resolved and its norm stored in
  \<open>tile_norms\<close>; the shape of the result is the one built from these norms; the calls issued
  are the task additions, then the \<open>Await\<close> (when a task was spawned), then the \<open>Set\<close> of the
  indices of the vector \<open>tiles\<close> that the new shape calls non-zero, and no fence; a tile of
  the vector is in the result when the new shape calls its index non-zero and is dropped
  when the shape calls it zero; and no other index holds a tile.
\<close>

theorem foreach_sparse_fan_in:
  fixes op_caller :: "'t \<Rightarrow> 't list \<Rightarrow> 'r \<times> 'n::zero"
  assumes run: "foreach_sparse op_caller shape_type zero_tile world sparse_set arg args =
      (world', Some result)"
    and s: "s = foreach_sparse_spawn op_caller zero_tile world sparse_set arg args"
    and dist: "distinct (pmap arg)"
  shows "\<exists>st. snd (foreach_sparse_wait op_caller s) = Some st \<and>
     counter st = task_count s \<and> task_count s = int (length (taskq s)) \<and>
     (\<forall>(index, arg_tile, arg_tiles) \<in> set (taskq s).
        \<exists>t ts. arg_tile = Some t \<and> those arg_tiles = Some ts \<and>
          tile_norms st index = snd (op_caller t ts)) \<and>
     shape result = shape_type (tile_norms st) (trange arg) \<and>
     sp_world s = world @ map TaskAdd (map fst (tiles_vector s)) \<and>
     world' = sp_world s @ (if task_count s > 0 then [Await (task_count s)] else []) @
        map Set (filter (\<lambda>index. \<not> shape result index) (map fst (tiles_vector s))) \<and>
     Fence \<notin> set (drop (length world) world') \<and>
     (\<forall>(index, tile) \<in> set (tiles_vector s).
        tiles result index = (if shape result index then None else tile)) \<and>
     (\<forall>index. index \<notin> fst ` set (tiles_vector s) \<longrightarrow> tiles result index = None)"
proof -
  obtain js F G where js: "distinct js"
    and sp: "s = \<lparr> sp_world = world @ map TaskAdd js,
         task_count = int (length js),
         tiles_vector =
           map (\<lambda>index. (index, taskq_add (\<lambda>t ts. fst (op_caller t ts)) (F index) (G index))) js,
         taskq = map (\<lambda>index. (index, F index, G index)) js \<rparr>"
    using foreach_sparse_spawn_shape [of arg op_caller zero_tile world sparse_set args] dist s
    by blast
  have tv: "map fst (tiles_vector s) = js" and tq: "map fst (taskq s) = js"
    and tc: "task_count s = int (length (taskq s))"
    and sw: "sp_world s = world @ map TaskAdd (map fst (tiles_vector s))"
    by (simp_all add: sp comp_def)
  obtain world1 st where wait: "foreach_sparse_wait op_caller s = (world1, Some st)"
    using run s [symmetric]
    by (auto simp: foreach_sparse_def Let_def split: option.splits prod.splits)
  let ?r0 = "\<lparr> trange = trange arg, shape = shape_type (tile_norms st) (trange arg),
                pmap = pmap arg, tiles = (\<lambda>_. None) \<rparr>"
  have commit: "foreach_sparse_commit (tiles_vector s) (world1, ?r0) = (world', result)"
    using run s [symmetric] wait by (auto simp: foreach_sparse_def Let_def split: prod.splits)
  have w1: "world1 = sp_world s @ (if task_count s > 0 then [Await (task_count s)] else [])"
    using wait by (auto simp: foreach_sparse_wait_def Let_def split: if_splits)
  have meta: "shape result = shape_type (tile_norms st) (trange arg)"
    using foreach_sparse_commit_meta [of "tiles_vector s" world1 ?r0] commit by simp
  have w': "world' = world1 @
      map Set (filter (\<lambda>index. \<not> shape result index) (map fst (tiles_vector s)))"
    using foreach_sparse_commit_world [of "tiles_vector s" world1 ?r0] commit meta
    by (simp add: DistArray_is_zero_def)
  have til: "tiles result index =
     (case map_of (tiles_vector s) index of
        None \<Rightarrow> None
      | Some tile \<Rightarrow> if shape result index then None else tile)" for index
    using foreach_sparse_commit_tiles [of "tiles_vector s" world1 ?r0 index] commit meta js tv
    by (simp add: DistArray_is_zero_def split: option.splits)
  have in_tv: "tiles result index = (if shape result index then None else tile)"
    if "(index, tile) \<in> set (tiles_vector s)" for index tile
  proof -
    have "map_of (tiles_vector s) index = Some tile"
      using that js tv by (simp add: map_of_eq_Some_iff)
    then show ?thesis by (simp add: til)
  qed
  have out_tv: "tiles result index = None" if "index \<notin> fst ` set (tiles_vector s)" for index
  proof -
    have "map_of (tiles_vector s) index = None"
      using that by (simp add: map_of_eq_None_iff)
    then show ?thesis by (simp add: til)
  qed
  have nofence: "Fence \<notin> set (drop (length world) world')"
    by (auto simp: w' w1 sw)
  have fan: "counter st = task_count s \<and>
     (\<forall>(index, arg_tile, arg_tiles) \<in> set (taskq s).
        \<exists>t ts. arg_tile = Some t \<and> those arg_tiles = Some ts \<and>
          tile_norms st index = snd (op_caller t ts))"
  proof (cases "task_count s > 0")
    case True
    let ?st0 = "\<lparr> tile_norms = (\<lambda>_. 0), counter = 0 \<rparr> :: 'n task_state"
    have aw: "world_await (\<lambda>st. counter st = task_count s) op_caller (taskq s) ?st0 = Some st"
      using wait True by (simp add: foreach_sparse_wait_def Let_def)
    have "counter ?st0 + int (length (taskq s)) = task_count s" using tc by simp
    from world_await_exact [OF this aw] js tq show ?thesis by simp
  next
    case False
    then have "taskq s = []" using tc by simp
    moreover have "counter st = 0"
      using wait False by (auto simp: foreach_sparse_wait_def Let_def)
    ultimately show ?thesis using tc by simp
  qed
  show ?thesis
    apply (rule exI [of _ st])
    using wait fan tc meta sw w' w1 nofence in_tv out_tv by auto
qed

theorem foreach_sparse_fan_in_witness:
  "distinct (pmap zeros_a) \<and>
   fst (foreach_sparse (nonvoid_op_helper_false norm_op 0) example_shape_type 0 []
          sparse_union zeros_a [zeros_a]) =
     [TaskAdd 0, TaskAdd 1, Await 2, Set 0] \<and>
   (\<exists>result st.
      snd (foreach_sparse (nonvoid_op_helper_false norm_op 0) example_shape_type 0 []
             sparse_union zeros_a [zeros_a]) = Some result \<and>
      snd (foreach_sparse_wait (nonvoid_op_helper_false norm_op 0)
             (foreach_sparse_spawn (nonvoid_op_helper_false norm_op 0) 0 []
                sparse_union zeros_a [zeros_a])) = Some st \<and>
      counter st = 2 \<and> tile_norms st 0 = 7 \<and> tile_norms st 1 = 7 \<and>
      \<not> shape result 0 \<and> shape result 1 \<and>
      tiles result 0 = Some 7 \<and> tiles result 1 = None)"
proof -
  let ?op = "nonvoid_op_helper_false norm_op 0 :: int \<Rightarrow> int list \<Rightarrow> int \<times> nat"
  let ?run = "foreach_sparse ?op example_shape_type 0 [] sparse_union zeros_a [zeros_a]"
  let ?s = "foreach_sparse_spawn ?op 0 [] sparse_union zeros_a [zeros_a]"
  have d: "distinct (pmap zeros_a)" and tr: "trange zeros_a = [0, 1, 9]"
    by (simp_all add: zeros_a_def)
  have "case snd ?run of None \<Rightarrow> False | Some r \<Rightarrow> True"
    by code_simp
  then obtain result where res: "snd ?run = Some result"
    by (cases "snd ?run") simp_all
  then have run: "?run = (fst ?run, Some result)"
    by (metis prod.collapse)
  have tq: "taskq ?s = [(0, Some 0, [Some 0]), (1, Some 0, [Some 0])]"
    and tv: "tiles_vector ?s = [(0, Some 7), (1, Some 7)]"
    and tc: "task_count ?s = 2"
    and sw: "sp_world ?s = [TaskAdd 0, TaskAdd 1]"
    by code_simp+
  have opv: "snd (?op 0 [0]) = 7"
    by (simp add: nonvoid_op_helper_false_def norm_op_def)
  from foreach_sparse_fan_in [OF run refl d]
  obtain st where wait: "snd (foreach_sparse_wait ?op ?s) = Some st"
    and cnt: "counter st = task_count ?s"
    and norms: "\<forall>(index, arg_tile, arg_tiles) \<in> set (taskq ?s).
        \<exists>t ts. arg_tile = Some t \<and> those arg_tiles = Some ts \<and>
          tile_norms st index = snd (?op t ts)"
    and sh: "shape result = example_shape_type (tile_norms st) (trange zeros_a)"
    and w: "fst ?run = sp_world ?s @ (if task_count ?s > 0 then [Await (task_count ?s)] else []) @
        map Set (filter (\<lambda>index. \<not> shape result index) (map fst (tiles_vector ?s)))"
    and til: "\<forall>(index, tile) \<in> set (tiles_vector ?s).
        tiles result index = (if shape result index then None else tile)"
    by blast
  from norms have n0: "tile_norms st 0 = 7" and n1: "tile_norms st 1 = 7"
    by (simp_all add: tq opv)
  have s0: "\<not> shape result 0" and s1: "shape result 1"
    using n0 n1 by (simp_all add: sh tr example_shape_type_def)
  from til s0 s1 have t0: "tiles result 0 = Some 7" and t1: "tiles result 1 = None"
    by (simp_all add: tv)
  have log: "fst ?run = [TaskAdd 0, TaskAdd 1, Await 2, Set 0]"
    using s0 s1 by (simp add: w sw tc tv)
  from cnt tc have c2: "counter st = 2" by simp
  show ?thesis
    using d log res wait c2 n0 n1 s0 s1 t0 t1 by blast
qed

section \<open>Properties of the in-place entry points\<close>



section \<open>Properties of Communicator\<close>

text \<open>
  Claim C7, as stated: every send to a destination other than this process dispatches a
  remote task that performs the cache set. It fails for the overload that takes a future
  when the future is still pending: process 0 sends the pending future 0 to process 1, and
  nothing has been issued when the call returns.
\<close>

theorem send_pending_remote_counterexample:
  "rank example_world \<noteq> 1 \<and> fut_value (futures example_world 0) = None \<and>
   issued (snd (send_future example_world 1 42 0)) = []"
  by (simp add: example_world_def send_future_def new_DelayedSend_def register_callback_def
      probe_def)

text \<open>
  Claim C7, amended. When \<open>dest\<close> is the rank of this process, both overloads of \<open>send\<close> are
  the local \<open>set_cache_data\<close> of the value (or of the future) under the key and issue
  nothing else, so no task is dispatched. For every other \<open>dest\<close>: the overload for a plain
  value dispatches the remote task that sets the value on \<open>dest\<close>; the overload for a
  future dispatches that task with the future's value when the future is already
  resolved; and when the future is still pending it dispatches nothing and registers a new
  \<open>DelayedSend\<close> object for \<open>dest\<close>, the key and the future on the future.
\<close>

theorem send_dispatch:
  "(rank world = dest \<longrightarrow>
      send world dest key v = set_cache_data key (Plain v) world \<and>
      send_future world dest key f = (Inr (), set_cache_data key (Fut f) world) \<and>
      issued (send world dest key v) = issued world @ [Cache_set key (Plain v)] \<and>
      issued (snd (send_future world dest key f)) = issued world @ [Cache_set key (Fut f)]) \<and>
   (rank world \<noteq> dest \<longrightarrow>
      issued (send world dest key v) = issued world @ [Remote_set dest key v] \<and>
      (\<forall>x. fut_value (futures world f) = Some x \<longrightarrow>
         send_future world dest key f = (Inr (), issue (Remote_set dest key x) world) \<and>
         issued (snd (send_future world dest key f)) = issued world @ [Remote_set dest key x]) \<and>
      (fut_value (futures world f) = None \<longrightarrow>
         fst (send_future world dest key f) = Inr () \<and>
         issued (snd (send_future world dest key f)) = issued world \<and>
         heap (snd (send_future world dest key f)) (next_object world) =
           Some \<lparr> ds_dest = dest, ds_key = key, ds_value = f \<rparr> \<and>
         fut_callbacks (futures (snd (send_future world dest key f)) f) =
           fut_callbacks (futures world f) @ [next_object world]))"
  by (auto simp: send_def send_future_def set_cache_data_def issue_def new_DelayedSend_def
      register_callback_def probe_def)

theorem send_dispatch_witness:
  "rank example_world = 0 \<and>
   issued (send example_world 0 42 7) = [Cache_set 42 (Plain 7)] \<and>
   issued (snd (send_future example_world 0 42 0)) = [Cache_set 42 (Fut 0)] \<and>
   rank example_world \<noteq> 3 \<and>
   issued (send example_world 3 42 7) = [Remote_set 3 42 7] \<and>
   fut_value (futures example_world 1) = Some 99 \<and>
   issued (snd (send_future example_world 3 42 1)) = [Remote_set 3 42 99] \<and>
   fut_value (futures example_world 0) = None \<and>
   issued (snd (send_future example_world 3 42 0)) = [] \<and>
   heap (snd (send_future example_world 3 42 0)) 0 =
     Some \<lparr> ds_dest = 3, ds_key = 42, ds_value = 0 \<rparr> \<and>
   fut_callbacks (futures (snd (send_future example_world 3 42 0)) 0) = [0]"
proof -
  have r: "rank example_world = 0" "rank example_world \<noteq> 3"
    and i: "issued example_world = []" and n: "next_object example_world = 0"
    and f1: "fut_value (futures example_world 1) = Some 99"
    and f0: "fut_value (futures example_world 0) = None"
    and c0: "fut_callbacks (futures example_world 0) = []"
    by (simp_all add: example_world_def)
  note here = send_dispatch [of example_world 0 42 7 0]
  note there = send_dispatch [of example_world 3 42 7 1]
  note later = send_dispatch [of example_world 3 42 7 0]
  from here r have a: "issued (send example_world 0 42 7) = [Cache_set 42 (Plain 7)]"
    "issued (snd (send_future example_world 0 42 0)) = [Cache_set 42 (Fut 0)]"
    by (simp_all add: i set_cache_data_def issue_def)
  from there r f1 have b: "issued (send example_world 3 42 7) = [Remote_set 3 42 7]"
    "issued (snd (send_future example_world 3 42 1)) = [Remote_set 3 42 99]"
    by (simp_all add: i issue_def)
  from later r f0 have c: "issued (snd (send_future example_world 3 42 0)) = []"
    "heap (snd (send_future example_world 3 42 0)) 0 =
       Some \<lparr> ds_dest = 3, ds_key = 42, ds_value = 0 \<rparr>"
    "fut_callbacks (futures (snd (send_future example_world 3 42 0)) 0) = [0]"
    by (simp_all add: i n c0)
  from r a b c f1 f0 show ?thesis by simp
qed

text \<open>
  Claim C6. For every send of a pending future to another process: the call makes one new
  \<open>DelayedSend\<close> object, holding the destination, the key and the future, and registers it
  on the future, and changes nothing else. Notified in a world where the future has the
  value \<open>v\<close>, that object dispatches the remote cache set of \<open>v\<close> on the destination under
  the key, and is deleted. So when the future resolves (here with no callback registered
  on it before), exactly that task is issued, the object is gone, the future has no
  callback left, and neither a second notification of the object nor a second resolution of
  the future can happen. When the destination is this process or the future is already
  resolved, the call makes no object and registers nothing.
\<close>

theorem send_future_deferred:
  "(rank world \<noteq> dest \<and> fut_value (futures world f) = None \<longrightarrow>
      send_future world dest key f =
        (Inr (),
         world\<lparr> heap := (heap world)
                  (next_object world \<mapsto> \<lparr> ds_dest = dest, ds_key = key, ds_value = f \<rparr>),
                next_object := Suc (next_object world),
                futures := (futures world)
                  (f := (futures world f)
                     \<lparr>fut_callbacks := fut_callbacks (futures world f) @ [next_object world]\<rparr>) \<rparr>) \<and>
      (\<forall>w v. heap w (next_object world) = Some \<lparr> ds_dest = dest, ds_key = key, ds_value = f \<rparr> \<and>
             fut_value (futures w f) = Some v \<and> rank w = rank world \<longrightarrow>
         notify w (next_object world) =
           (Inr (), (issue (Remote_set dest key v) w)\<lparr>heap := (heap w)(next_object world := None)\<rparr>)) \<and>
      (fut_callbacks (futures world f) = [] \<longrightarrow>
         (\<forall>v. \<exists>world2.
            future_set (snd (send_future world dest key f)) f v = (Inr (), world2) \<and>
            issued world2 = issued world @ [Remote_set dest key v] \<and>
            heap world2 = (heap world)(next_object world := None) \<and>
            futures world2 = (futures world)(f := \<lparr> fut_value = Some v, fut_callbacks = [] \<rparr>) \<and>
            notify world2 (next_object world) = (Inl Exception, world2) \<and>
            (\<forall>v'. future_set world2 f v' = (Inl Exception, world2))))) \<and>
   (rank world = dest \<or> fut_value (futures world f) \<noteq> None \<longrightarrow>
      heap (snd (send_future world dest key f)) = heap world \<and>
      next_object (snd (send_future world dest key f)) = next_object world \<and>
      futures (snd (send_future world dest key f)) = futures world)"
proof -
  let ?cb = "\<lparr> ds_dest = dest, ds_key = key, ds_value = f \<rparr>"
  let ?w1 = "world\<lparr> heap := (heap world)(next_object world \<mapsto> ?cb),
                next_object := Suc (next_object world),
                futures := (futures world)
                  (f := (futures world f)
                     \<lparr>fut_callbacks := fut_callbacks (futures world f) @ [next_object world]\<rparr>) \<rparr>"
  have a: "send_future world dest key f = (Inr (), ?w1)"
    if "rank world \<noteq> dest" "fut_value (futures world f) = None"
    using that
    by (simp add: send_future_def new_DelayedSend_def register_callback_def probe_def)
  have b: "notify w (next_object world) =
           (Inr (), (issue (Remote_set dest key v) w)\<lparr>heap := (heap w)(next_object world := None)\<rparr>)"
    if "rank world \<noteq> dest" "heap w (next_object world) = Some ?cb"
      "fut_value (futures w f) = Some v" "rank w = rank world" for w v
    using that by (simp add: notify_def send_def Let_def issue_def)
  have c: "\<exists>world2.
            future_set ?w1 f v = (Inr (), world2) \<and>
            issued world2 = issued world @ [Remote_set dest key v] \<and>
            heap world2 = (heap world)(next_object world := None) \<and>
            futures world2 = (futures world)(f := \<lparr> fut_value = Some v, fut_callbacks = [] \<rparr>) \<and>
            notify world2 (next_object world) = (Inl Exception, world2) \<and>
            (\<forall>v'. future_set world2 f v' = (Inl Exception, world2))"
    if "rank world \<noteq> dest" "fut_value (futures world f) = None"
      "fut_callbacks (futures world f) = []"
    for v
    using that
    by (simp add: future_set_def TA_ASSERT_in_def probe_def notify_def send_def Let_def issue_def)
  have d: "heap (snd (send_future world dest key f)) = heap world \<and>
      next_object (snd (send_future world dest key f)) = next_object world \<and>
      futures (snd (send_future world dest key f)) = futures world"
    if "rank world = dest \<or> fut_value (futures world f) \<noteq> None"
    using that by (auto simp: send_future_def set_cache_data_def issue_def)
  show ?thesis
    using a b c d by (auto simp del: fun_upd_apply)
qed

theorem send_future_deferred_witness:
  "rank example_world \<noteq> 1 \<and> fut_value (futures example_world 0) = None \<and>
   fut_callbacks (futures example_world 0) = [] \<and>
   fst (send_future example_world 1 42 0) = Inr () \<and>
   heap (snd (send_future example_world 1 42 0)) 0 =
     Some \<lparr> ds_dest = 1, ds_key = 42, ds_value = 0 \<rparr> \<and>
   heap (snd (send_future example_world 1 42 0)) 1 = None \<and>
   fut_callbacks (futures (snd (send_future example_world 1 42 0)) 0) = [0] \<and>
   (\<exists>world2. future_set (snd (send_future example_world 1 42 0)) 0 5 = (Inr (), world2) \<and>
      issued world2 = [Remote_set 1 42 5] \<and> heap world2 0 = None \<and>
      fut_value (futures world2 0) = Some 5 \<and> fut_callbacks (futures world2 0) = [] \<and>
      notify world2 0 = (Inl Exception, world2) \<and>
      future_set world2 0 6 = (Inl Exception, world2)) \<and>
   fut_value (futures example_world 1) = Some 99 \<and>
   heap (snd (send_future example_world 1 42 1)) 0 = None \<and>
   fut_callbacks (futures (snd (send_future example_world 1 42 1)) 1) = [] \<and>
   heap (snd (send_future example_world 0 42 0)) 0 = None \<and>
   fut_callbacks (futures (snd (send_future example_world 0 42 0)) 0) = []"
proof -
  have r: "rank example_world \<noteq> 1" "rank example_world = 0"
    and i: "issued example_world = []" and n: "next_object example_world = 0"
    and h: "heap example_world = (\<lambda>_. None)"
    and f1: "fut_value (futures example_world 1) = Some 99"
    and c1: "fut_callbacks (futures example_world 1) = []"
    and f0: "fut_value (futures example_world 0) = None"
    and c0: "fut_callbacks (futures example_world 0) = []"
    by (simp_all add: example_world_def)
  note pending = send_future_deferred [of example_world 1 0 42]
  note resolved = send_future_deferred [of example_world 1 1 42]
  note local = send_future_deferred [of example_world 0 0 42]
  have a: "fst (send_future example_world 1 42 0) = Inr ()"
    "heap (snd (send_future example_world 1 42 0)) 0 =
       Some \<lparr> ds_dest = 1, ds_key = 42, ds_value = 0 \<rparr>"
    "heap (snd (send_future example_world 1 42 0)) 1 = None"
    "fut_callbacks (futures (snd (send_future example_world 1 42 0)) 0) = [0]"
    by (simp_all add: example_world_def send_future_def new_DelayedSend_def
        register_callback_def probe_def)
  have pre: "rank example_world \<noteq> 1 \<and> fut_value (futures example_world 0) = None"
    using r f0 by simp
  note fired = pending [THEN conjunct1, THEN mp, OF pre, THEN conjunct2, THEN conjunct2,
      THEN mp, OF c0, THEN spec, of 5]
  then obtain world2 where
    b: "future_set (snd (send_future example_world 1 42 0)) 0 5 = (Inr (), world2)"
    and b1: "issued world2 = issued example_world @ [Remote_set 1 42 5]"
    and b2: "heap world2 = (heap example_world)(next_object example_world := None)"
    and b3: "futures world2 =
         (futures example_world)(0 := \<lparr> fut_value = Some 5, fut_callbacks = [] \<rparr>)"
    and b4: "notify world2 (next_object example_world) = (Inl Exception, world2)"
    and b5: "\<forall>v'. future_set world2 0 v' = (Inl Exception, world2)"
    by (elim exE conjE)
  have b': "issued world2 = [Remote_set 1 42 5]" "heap world2 0 = None"
    "fut_value (futures world2 0) = Some 5" "fut_callbacks (futures world2 0) = []"
    "notify world2 0 = (Inl Exception, world2)" "future_set world2 0 6 = (Inl Exception, world2)"
    using b4 b5 by (simp_all add: b1 b2 b3 i n h)
  have ex: "\<exists>world2. future_set (snd (send_future example_world 1 42 0)) 0 5 = (Inr (), world2) \<and>
      issued world2 = [Remote_set 1 42 5] \<and> heap world2 0 = None \<and>
      fut_value (futures world2 0) = Some 5 \<and> fut_callbacks (futures world2 0) = [] \<and>
      notify world2 0 = (Inl Exception, world2) \<and>
      future_set world2 0 6 = (Inl Exception, world2)"
    by (rule exI [of _ world2]) (simp add: b b')
  have res: "rank example_world = 1 \<or> fut_value (futures example_world 1) \<noteq> None"
    using f1 by simp
  have loc: "rank example_world = 0 \<or> fut_value (futures example_world 0) \<noteq> None"
    using r by simp
  note c = resolved [THEN conjunct2, THEN mp, OF res]
  note d = local [THEN conjunct2, THEN mp, OF loc]
  have c': "heap (snd (send_future example_world 1 42 1)) 0 = None"
    "fut_callbacks (futures (snd (send_future example_world 1 42 1)) 1) = []"
    using c c1 by (simp_all add: h)
  have d': "heap (snd (send_future example_world 0 42 0)) 0 = None"
    "fut_callbacks (futures (snd (send_future example_world 0 42 0)) 0) = []"
    using d c0 by (simp_all add: h)
  show ?thesis
    using r(1) f0 c0 f1 a ex c' d' by simp
qed

text \<open>
  Claim C8. For the broadcast over the world and the broadcast over a group: a root outside
  the ranks of the scope fails an assertion; a caller that is not the root and whose value
  is already resolved fails an assertion; whenever the call fails, it leaves the world as
  it found it, so nothing has been spawned; and when the scope has one process the call
  leaves the world as it found it, whether it fails or not, and succeeds without any
  communication when called with the one valid root.
\<close>

theorem bcast_preconditions:
  "(\<not> (0 \<le> root \<and> root < world_size world) \<longrightarrow>
      bcast world key value root = (Inl Exception, world)) \<and>
   (rank world \<noteq> root \<and> probe world value \<longrightarrow>
      bcast world key value root = (Inl Exception, world)) \<and>
   (\<not> (0 \<le> group_root \<and> group_root < group_size grp) \<longrightarrow>
      bcast_group world key value group_root grp = (Inl Exception, world)) \<and>
   (group_rank grp \<noteq> group_root \<and> probe world value \<longrightarrow>
      bcast_group world key value group_root grp = (Inl Exception, world)) \<and>
   (fst (bcast world key value root) = Inl Exception \<longrightarrow>
      snd (bcast world key value root) = world) \<and>
   (fst (bcast_group world key value group_root grp) = Inl Exception \<longrightarrow>
      snd (bcast_group world key value group_root grp) = world) \<and>
   (world_size world = 1 \<longrightarrow> snd (bcast world key value root) = world) \<and>
   (group_size grp = 1 \<longrightarrow> snd (bcast_group world key value group_root grp) = world) \<and>
   (world_size world = 1 \<and> root = 0 \<and> rank world = 0 \<longrightarrow>
      bcast world key value root = (Inr (), world)) \<and>
   (group_size grp = 1 \<and> group_root = 0 \<and> group_rank grp = 0 \<and>
    group_world_id grp = world_id world \<and> group_rank_of grp (rank world) \<noteq> - 1 \<longrightarrow>
      bcast_group world key value group_root grp = (Inr (), world))"
  by (auto simp: bcast_def bcast_group_def TA_ASSERT_in_def split: option.splits)

theorem bcast_preconditions_witness:
  "\<not> (0 \<le> (7::int) \<and> 7 < world_size example_world) \<and>
   bcast example_world 42 1 7 = (Inl Exception, example_world) \<and>
   rank example_world \<noteq> 2 \<and> probe example_world 1 \<and>
   bcast example_world 42 1 2 = (Inl Exception, example_world) \<and>
   \<not> (0 \<le> (7::int) \<and> 7 < group_size example_group) \<and>
   bcast_group example_world 42 1 7 example_group = (Inl Exception, example_world) \<and>
   group_rank example_group \<noteq> 2 \<and>
   bcast_group example_world 42 1 2 example_group = (Inl Exception, example_world) \<and>
   world_size single_world = 1 \<and> rank single_world = 0 \<and>
   bcast single_world 42 1 0 = (Inr (), single_world) \<and>
   snd (bcast single_world 42 1 5) = single_world \<and>
   group_size single_group = 1 \<and>
   bcast_group single_world 42 1 0 single_group = (Inr (), single_world) \<and>
   snd (bcast_group single_world 42 1 5 single_group) = single_world \<and>
   issued (snd (bcast example_world 42 1 0)) =
     [Remote_bcast_task 1 42 99 0, Remote_bcast_task 2 42 99 0]"
proof -
  have w: "\<not> (0 \<le> (7::int) \<and> 7 < world_size example_world)" "rank example_world \<noteq> 2"
    "probe example_world 1"
    by (simp_all add: example_world_def probe_def)
  have g: "\<not> (0 \<le> (7::int) \<and> 7 < group_size example_group)" "group_rank example_group \<noteq> 2"
    by (simp_all add: example_group_def)
  have s: "world_size single_world = 1" "rank single_world = 0" "world_id single_world = 1"
    by (simp_all add: single_world_def example_world_def)
  have sg: "group_size single_group = 1" "group_rank single_group = 0"
    "group_world_id single_group = 1" "group_rank_of single_group 0 \<noteq> - 1"
    by (simp_all add: single_group_def)
  note bad_root = bcast_preconditions [of 7 example_world 42 1 7 example_group]
  note not_root = bcast_preconditions [of 2 example_world 42 1 2 example_group]
  note trivial = bcast_preconditions [of 0 single_world 42 1 0 single_group]
  note trivial_bad = bcast_preconditions [of 5 single_world 42 1 5 single_group]
  from bad_root w g have a: "bcast example_world 42 1 7 = (Inl Exception, example_world)"
    "bcast_group example_world 42 1 7 example_group = (Inl Exception, example_world)"
    by blast+
  from not_root w g have b: "bcast example_world 42 1 2 = (Inl Exception, example_world)"
    "bcast_group example_world 42 1 2 example_group = (Inl Exception, example_world)"
    by blast+
  from trivial s sg have c: "bcast single_world 42 1 0 = (Inr (), single_world)"
    "bcast_group single_world 42 1 0 single_group = (Inr (), single_world)"
    by simp_all
  from trivial_bad s sg have d: "snd (bcast single_world 42 1 5) = single_world"
    "snd (bcast_group single_world 42 1 5 single_group) = single_world"
    by blast+
  have e: "issued (snd (bcast example_world 42 1 0)) =
     [Remote_bcast_task 1 42 99 0, Remote_bcast_task 2 42 99 0]"
    by (simp add: bcast_def TA_ASSERT_in_def example_world_def probe_def bcast_children_def
        issue_def)
  from w g s sg a b c d e show ?thesis by simp
qed

end
